theory Spec2Isabelle
  imports Main "HOL-Library.AList" "HOL-Library.Word"
begin

section \<open>Package influxdb: errors, batches and their normalization\<close>

subsection \<open>Error values\<close>

text \<open>
  Go compares error values by identity (\<^verbatim>\<open>err == influxdb.ErrDataNodeExists\<close>), so the
  sentinels of the \<^verbatim>\<open>var\<close> block are constructors of their own and an error made on
  the spot with \<^verbatim>\<open>errors.New\<close> or \<^verbatim>\<open>fmt.Errorf\<close> is \<open>ErrorsNew\<close> of its text: it is
  never equal to a sentinel, even with the same message. \<open>ErrAuthorize\<close> is the struct
  type of that name. Only the sentinels that the modelled functions mention are listed.
\<close>

datatype error =
    ErrDataNodeExists
  | ErrDataNodeNotFound
  | ErrMeasurementNameRequired
  | ErrValuesRequired
  | ErrorsNew string
  | ErrAuthorize string

fun Error :: "error \<Rightarrow> string" where
  "Error ErrDataNodeExists = ''data node exists''"
| "Error ErrDataNodeNotFound = ''data node not found''"
| "Error ErrMeasurementNameRequired = ''measurement name required''"
| "Error ErrValuesRequired = ''values required''"
| "Error (ErrorsNew s) = s"
| "Error (ErrAuthorize s) = s"

subsection \<open>Times, maps, points, batches\<close>

text \<open>
  A \<^verbatim>\<open>time.Time\<close> is the number of nanoseconds since Go's zero instant, so that
  \<^verbatim>\<open>IsZero\<close> is equality with 0. A Go map is an association list whose order is the
  order in which \<^verbatim>\<open>range\<close> happens to visit the keys; a nil map is \<open>None\<close>. Reading
  a key that is absent (or any key of a nil map) gives the zero value, the empty string.
\<close>

type_synonym time = int

definition IsZero :: "time \<Rightarrow> bool" where
  "IsZero t = (t = 0)"

type_synonym tagmap = "(string \<times> string) list"

definition index_map :: "tagmap \<Rightarrow> string \<Rightarrow> string" where
  "index_map m k = (case map_of m k of None \<Rightarrow> [] | Some v \<Rightarrow> v)"

definition index_tags :: "tagmap option \<Rightarrow> string \<Rightarrow> string" where
  "index_tags t k = (case t of None \<Rightarrow> [] | Some m \<Rightarrow> index_map m k)"

definition len_tags :: "tagmap option \<Rightarrow> nat" where
  "len_tags t = (case t of None \<Rightarrow> 0 | Some m \<Rightarrow> length m)"

text \<open>\<^verbatim>\<open>client.Point\<close>, with the fields that \<^verbatim>\<open>NormalizeBatchPoints\<close> reads.\<close>

record 'v client_Point =
  Name :: string
  Tags :: "tagmap option"
  Timestamp :: time
  Values :: "(string \<times> 'v) list option"
  Precision :: string

text \<open>\<^verbatim>\<open>influxdb.Point\<close>, with the fields that \<^verbatim>\<open>NormalizeBatchPoints\<close> writes.\<close>

record 'v Point =
  Name :: string
  Tags :: "tagmap option"
  Timestamp :: time
  Values :: "(string \<times> 'v) list option"

text \<open>
  \<^verbatim>\<open>BatchPoints\<close> and the two anonymous structs of \<^verbatim>\<open>UnmarshalJSON\<close> have the same
  fields and differ in the type of \<^verbatim>\<open>Timestamp\<close> only, which is the parameter \<open>'t\<close>:
  a time for \<^verbatim>\<open>BatchPoints\<close> and \<^verbatim>\<open>normal\<close>, a \<^verbatim>\<open>*int64\<close> for \<^verbatim>\<open>epoch\<close>.
\<close>

record ('v, 't) BatchPoints =
  Points :: "'v client_Point list"
  Database :: string
  RetentionPolicy :: string
  Tags :: "tagmap option"
  Timestamp :: 't
  Precision :: string

subsection \<open>BatchPoints.UnmarshalJSON\<close>

text \<open>
  \<^verbatim>\<open>json.Unmarshal\<close> into either struct, \<^verbatim>\<open>client.EpochToTime\<close> and
  \<^verbatim>\<open>client.SetPrecision\<close> are not part of the file; they are the parameters
  \<open>unm_epoch\<close>, \<open>unm_normal\<close>, \<open>EpochToTime\<close> and \<open>SetPrecision\<close>. The receiver is
  assigned on success only, and then in every field, so the function returns the new
  value of \<^verbatim>\<open>*bp\<close> or the error.
\<close>

definition from_epoch ::
  "(64 word \<Rightarrow> string \<Rightarrow> error + time) \<Rightarrow> ('v, 64 word option) BatchPoints
     \<Rightarrow> error + ('v, time) BatchPoints" where
  "from_epoch EpochToTime epoch =
     (case (case BatchPoints.Timestamp epoch of
              None \<Rightarrow> Inr 0
            | Some n \<Rightarrow> EpochToTime n (BatchPoints.Precision epoch)) of
        Inl err \<Rightarrow> Inl err
      | Inr ts \<Rightarrow>
          Inr \<lparr> Points = Points epoch,
                Database = Database epoch,
                RetentionPolicy = RetentionPolicy epoch,
                Tags = BatchPoints.Tags epoch,
                Timestamp = ts,
                Precision = BatchPoints.Precision epoch \<rparr>)"

definition epoch_attempt ::
  "(string \<Rightarrow> error + ('v, 64 word option) BatchPoints)
     \<Rightarrow> (64 word \<Rightarrow> string \<Rightarrow> error + time) \<Rightarrow> string \<Rightarrow> error + ('v, time) BatchPoints" where
  "epoch_attempt unm_epoch EpochToTime b =
     (case unm_epoch b of
        Inl err \<Rightarrow> Inl err
      | Inr epoch \<Rightarrow> from_epoch EpochToTime epoch)"

definition from_normal ::
  "(time \<Rightarrow> string \<Rightarrow> time) \<Rightarrow> ('v, time) BatchPoints \<Rightarrow> ('v, time) BatchPoints" where
  "from_normal SetPrecision normal =
     \<lparr> Points = Points normal,
       Database = Database normal,
       RetentionPolicy = RetentionPolicy normal,
       Tags = BatchPoints.Tags normal,
       Timestamp = SetPrecision (BatchPoints.Timestamp normal) (BatchPoints.Precision normal),
       Precision = BatchPoints.Precision normal \<rparr>"

definition UnmarshalJSON ::
  "(string \<Rightarrow> error + ('v, 64 word option) BatchPoints)
     \<Rightarrow> (string \<Rightarrow> error + ('v, time) BatchPoints)
     \<Rightarrow> (64 word \<Rightarrow> string \<Rightarrow> error + time) \<Rightarrow> (time \<Rightarrow> string \<Rightarrow> time)
     \<Rightarrow> string \<Rightarrow> error + ('v, time) BatchPoints" where
  "UnmarshalJSON unm_epoch unm_normal EpochToTime SetPrecision b =
     (case epoch_attempt unm_epoch EpochToTime b of
        Inr bp \<Rightarrow> Inr bp
      | Inl _ \<Rightarrow>
          (case unm_normal b of
             Inl err \<Rightarrow> Inl err
           | Inr normal \<Rightarrow> Inr (from_normal SetPrecision normal)))"

text \<open>The fields of an envelope other than its timestamp.\<close>

definition envelope ::
  "('v, 't) BatchPoints
     \<Rightarrow> 'v client_Point list \<times> string \<times> string \<times> tagmap option \<times> string" where
  "envelope x =
     (Points x, Database x, RetentionPolicy x, BatchPoints.Tags x, BatchPoints.Precision x)"

subsection \<open>NormalizeBatchPoints\<close>

text \<open>
  The inner loop \<^verbatim>\<open>for k := range bp.Tags\<close>: \<open>ks\<close> are the keys in the order of the
  visit, \<open>bt\<close> the batch's map and \<open>pt\<close> the point's map, which the loop updates.
\<close>

fun fill_tags :: "string list \<Rightarrow> tagmap \<Rightarrow> tagmap \<Rightarrow> tagmap" where
  "fill_tags [] bt pt = pt"
| "fill_tags (k # ks) bt pt =
     fill_tags ks bt
       (if index_map pt k = [] then AList.update k (index_map bt k) pt else pt)"

definition merge_tags :: "tagmap option \<Rightarrow> tagmap option \<Rightarrow> tagmap option" where
  "merge_tags btags ptags =
     (if len_tags btags > 0 then
        (let pt = (case ptags of None \<Rightarrow> [] | Some m \<Rightarrow> m);
             bt = (case btags of None \<Rightarrow> [] | Some m \<Rightarrow> m)
         in Some (fill_tags (map fst bt) bt pt))
      else ptags)"

text \<open>The body of the outer loop: one \<^verbatim>\<open>client.Point\<close> to one \<^verbatim>\<open>Point\<close>.\<close>

definition normalize_point ::
  "(time \<Rightarrow> string \<Rightarrow> time) \<Rightarrow> ('v, time) BatchPoints \<Rightarrow> 'v client_Point \<Rightarrow> 'v Point" where
  "normalize_point SetPrecision bp p =
     (let ts1 = (if IsZero (client_Point.Timestamp p) then BatchPoints.Timestamp bp
                 else client_Point.Timestamp p);
          prec = (if client_Point.Precision p = [] \<and> BatchPoints.Precision bp \<noteq> []
                  then BatchPoints.Precision bp else client_Point.Precision p);
          ts2 = SetPrecision ts1 prec;
          tags = merge_tags (BatchPoints.Tags bp) (client_Point.Tags p)
      in \<lparr> Name = client_Point.Name p,
           Tags = tags,
           Timestamp = ts2,
           Values = client_Point.Values p \<rparr>)"

fun normalize_loop ::
  "(time \<Rightarrow> string \<Rightarrow> time) \<Rightarrow> ('v, time) BatchPoints \<Rightarrow> 'v client_Point list
     \<Rightarrow> 'v Point list \<Rightarrow> 'v Point list" where
  "normalize_loop SetPrecision bp [] points = points"
| "normalize_loop SetPrecision bp (p # ps) points =
     normalize_loop SetPrecision bp ps (points @ [normalize_point SetPrecision bp p])"

definition NormalizeBatchPoints ::
  "(time \<Rightarrow> string \<Rightarrow> time) \<Rightarrow> ('v, time) BatchPoints \<Rightarrow> error + 'v Point list" where
  "NormalizeBatchPoints SetPrecision bp = Inr (normalize_loop SetPrecision bp (Points bp) [])"

text \<open>
  Modelled from the spec: \<^verbatim>\<open>client.SetPrecision\<close>, which is not in the files. The spec
  has the precisions n, u, ms, s, m and h, anything else meaning nanoseconds, and a
  timestamp "truncated to precision P". It is used to run the functions above on concrete
  batches; the theorems about them hold for every \<open>SetPrecision\<close>.
\<close>

definition precision_unit :: "string \<Rightarrow> int" where
  "precision_unit p =
     (if p = ''u'' then 1000
      else if p = ''ms'' then 1000000
      else if p = ''s'' then 1000000000
      else if p = ''m'' then 60000000000
      else if p = ''h'' then 3600000000000
      else 1)"

definition SetPrecision_spec :: "time \<Rightarrow> string \<Rightarrow> time" where
  "SetPrecision_spec t p = (t div precision_unit p) * precision_unit p"

section \<open>Package httpd: the handler\<close>

subsection \<open>Requests, response writers, state\<close>

text \<open>
  \<^verbatim>\<open>http.Header\<close> and \<^verbatim>\<open>url.Values\<close> are maps from a key to a list of values.
  Keys are compared as the source writes them (the canonical spelling that net/http
  gives a header key is not modelled).
\<close>

type_synonym multimap = "(string \<times> string list) list"

definition mm_Get :: "multimap \<Rightarrow> string \<Rightarrow> string" where
  "mm_Get m k = (case map_of m k of None \<Rightarrow> [] | Some [] \<Rightarrow> [] | Some (v # _) \<Rightarrow> v)"

definition mm_Set :: "string \<Rightarrow> string \<Rightarrow> multimap \<Rightarrow> multimap" where
  "mm_Set k v m = AList.update k [v] m"

definition mm_Add :: "string \<Rightarrow> string \<Rightarrow> multimap \<Rightarrow> multimap" where
  "mm_Add k v m = AList.update k ((case map_of m k of None \<Rightarrow> [] | Some vs \<Rightarrow> vs) @ [v]) m"

text \<open>
  The request: \<open>URL_Query\<close> is what \<^verbatim>\<open>r.URL.Query()\<close> returns and \<open>BasicAuth\<close> what
  \<^verbatim>\<open>r.BasicAuth()\<close> returns (\<open>None\<close> when its third result is false).
\<close>

record Request =
  Method :: string
  URL_Query :: multimap
  Header :: multimap
  BasicAuth :: "(string \<times> string) option"
  Body :: string

text \<open>
  \<^verbatim>\<open>influxdb.DataNode\<close>, with the two fields the handlers read; a \<^verbatim>\<open>*url.URL\<close> is
  represented by its \<^verbatim>\<open>String()\<close>.
\<close>

record DataNode =
  ID :: "64 word"
  URL :: string

record dataNodeJSON =
  ID :: "64 word"
  URL :: string

text \<open>
  What a handler writes is kept as the value it encodes: the encoders
  (\<^verbatim>\<open>json.Marshal\<close>, \<^verbatim>\<open>json.MarshalIndent\<close>, \<^verbatim>\<open>Encoder.Encode\<close>, gzip) are not
  part of the files. The boolean is the \<^verbatim>\<open>pretty\<close> flag.
\<close>

datatype 'r payload =
    Bytes string
  | JSON_Result error
  | JSON_Results_Err error bool
  | JSON_Results 'r bool
  | JSON_dataNode dataNodeJSON
  | JSON_dataNodes "dataNodeJSON list"
  | JSON_Status "64 word" "64 word" bool
  | Gzip "'r payload list"

text \<open>
  The \<^verbatim>\<open>http.ResponseWriter\<close>. \<open>status\<close> is \<open>None\<close> until the status line is written;
  net/http ignores a second \<^verbatim>\<open>WriteHeader\<close>, and a \<^verbatim>\<open>Write\<close> before any
  \<^verbatim>\<open>WriteHeader\<close> writes status 200 first. \<open>gzw\<close> is \<open>Some buf\<close> while the writer is
  wrapped in a \<^verbatim>\<open>gzipResponseWriter\<close>, whose \<^verbatim>\<open>Write\<close> goes to the gzip writer:
  \<open>buf\<close> is what was written to it, and closing it writes the compressed bytes to
  the body. The \<^verbatim>\<open>responseLogger\<close> that \<^verbatim>\<open>logging\<close> and \<^verbatim>\<open>recovery\<close> put around
  the writer is not in the files and is taken to forward every call, so the writer under
  it is the same record.
\<close>

record 'r ResponseWriter =
  status :: "nat option"
  header :: multimap
  body :: "'r payload list"
  gzw :: "'r payload list option"

definition WriteHeader :: "nat \<Rightarrow> 'r ResponseWriter \<Rightarrow> 'r ResponseWriter" where
  "WriteHeader code rw = (if status rw = None then rw\<lparr>status := Some code\<rparr> else rw)"

definition Write :: "'r payload \<Rightarrow> 'r ResponseWriter \<Rightarrow> 'r ResponseWriter" where
  "Write b rw =
     (let rw1 = WriteHeader 200 rw
      in case gzw rw1 of
           None \<Rightarrow> rw1\<lparr>body := body rw1 @ [b]\<rparr>
         | Some buf \<Rightarrow> rw1\<lparr>gzw := Some (buf @ [b])\<rparr>)"

definition gz_Close :: "'r ResponseWriter \<Rightarrow> 'r ResponseWriter" where
  "gz_Close rw =
     (case gzw rw of
        None \<Rightarrow> rw
      | Some buf \<Rightarrow> (let rw1 = WriteHeader 200 rw in rw1\<lparr>body := body rw1 @ [Gzip buf], gzw := None\<rparr>))"

definition Header_Add :: "string \<Rightarrow> string \<Rightarrow> 'r ResponseWriter \<Rightarrow> 'r ResponseWriter" where
  "Header_Add k v rw = rw\<lparr>header := mm_Add k v (header rw)\<rparr>"

definition Header_Set :: "string \<Rightarrow> string \<Rightarrow> 'r ResponseWriter \<Rightarrow> 'r ResponseWriter" where
  "Header_Set k v rw = rw\<lparr>header := mm_Set k v (header rw)\<rparr>"

text \<open>
  The filters call the clock (\<^verbatim>\<open>time.Now()\<close>) and the UUID generator
  (\<^verbatim>\<open>uuid.NewUUID()\<close>). What such a call returns is not fixed by the program: it is
  a function of the calls made before it, and each call is added to that history.
\<close>

datatype ext_call = Call_Now | Call_NewUUID

text \<open>
  The state a handler works on: the request (a pointer in the source: \<^verbatim>\<open>requestID\<close>
  writes to its header), the response writer, the server behind \<^verbatim>\<open>h.server\<close>,
  the lines printed to \<^verbatim>\<open>weblog\<close> and the calls made so far to the clock and to the
  UUID generator.
\<close>

record ('s, 'r) state =
  request :: Request
  writer :: "'r ResponseWriter"
  server :: 's
  weblog :: "string list"
  calls :: "ext_call list"

text \<open>
  A call either returns or panics; the state at the panic is kept, since what was written
  before stays written.
\<close>

datatype 'a outcome =
    is_Returned: Returned (state_of: 'a)
  | is_Panicked: Panicked (panic_value: string) (state_of: 'a)

type_synonym ('s, 'r) handler = "('s, 'r) state \<Rightarrow> ('s, 'r) state outcome"

definition on_writer ::
  "('r ResponseWriter \<Rightarrow> 'r ResponseWriter) \<Rightarrow> ('s, 'r) state \<Rightarrow> ('s, 'r) state" where
  "on_writer f st = st\<lparr>writer := f (writer st)\<rparr>"

abbreviation StatusOK :: nat where "StatusOK \<equiv> 200"
abbreviation StatusCreated :: nat where "StatusCreated \<equiv> 201"
abbreviation StatusAccepted :: nat where "StatusAccepted \<equiv> 202"
abbreviation StatusNoContent :: nat where "StatusNoContent \<equiv> 204"
abbreviation StatusBadRequest :: nat where "StatusBadRequest \<equiv> 400"
abbreviation StatusUnauthorized :: nat where "StatusUnauthorized \<equiv> 401"
abbreviation StatusNotFound :: nat where "StatusNotFound \<equiv> 404"
abbreviation StatusConflict :: nat where "StatusConflict \<equiv> 409"
abbreviation StatusInternalServerError :: nat where "StatusInternalServerError \<equiv> 500"
abbreviation StatusBadGateway :: nat where "StatusBadGateway \<equiv> 502"

subsection \<open>What the handler calls and is not in the files\<close>

text \<open>
  The library: \<open>json_value\<close> is the \<^verbatim>\<open>json.Decoder\<close> reading the next JSON value of
  a body (its error at the end of the input is \<^verbatim>\<open>io.EOF\<close>, with the text EOF), before
  the value is handed to \<^verbatim>\<open>UnmarshalJSON\<close>; \<open>decode_dataNode\<close> is the decoder on a
  \<^verbatim>\<open>dataNodeJSON\<close>; \<open>strconv_Quote\<close> is what the verb \<^verbatim>\<open>%q\<close> prints for a string;
  \<open>time_Now\<close> and \<open>uuid_NewUUID\<close> are what the clock and the generator return after
  a history of calls; \<open>buildLogLine\<close> is the function of that name.
\<close>

record ('v, 'q, 'r) lib =
  json_value :: "string \<Rightarrow> error + string"
  unm_epoch :: "string \<Rightarrow> error + ('v, 64 word option) BatchPoints"
  unm_normal :: "string \<Rightarrow> error + ('v, time) BatchPoints"
  client_EpochToTime :: "64 word \<Rightarrow> string \<Rightarrow> error + time"
  client_SetPrecision :: "time \<Rightarrow> string \<Rightarrow> time"
  decode_dataNode :: "string \<Rightarrow> error + dataNodeJSON"
  url_Parse :: "string \<Rightarrow> error + string"
  strconv_Quote :: "string \<Rightarrow> string"
  strconv_ParseUint :: "string \<Rightarrow> error + 64 word"
  ParseQuery :: "string \<Rightarrow> error + 'q"
  time_Now :: "ext_call list \<Rightarrow> time"
  uuid_NewUUID :: "ext_call list \<Rightarrow> string"
  buildLogLine :: "'r ResponseWriter \<Rightarrow> Request \<Rightarrow> time \<Rightarrow> string"

text \<open>
  The server: the methods of \<^verbatim>\<open>*influxdb.Server\<close>, of its broker client and of
  \<^verbatim>\<open>*influxdb.User\<close> that the handlers call, on a server state \<open>'s\<close>. A method that
  may change the server returns the new state. A \<^verbatim>\<open>*User\<close> is a \<open>'u option\<close>, nil
  being \<open>None\<close>; \<open>Authorize_Write\<close> is
  \<^verbatim>\<open>user.Authorize(influxql.WritePrivilege, database)\<close>, \<open>Inl\<close> when the call panics.
  \<open>CopyMetastore\<close> returns what it wrote to the writer and its error.
\<close>

record ('s, 'u, 'v, 'q, 'r) server_ops =
  UserCount :: "'s \<Rightarrow> int"
  Authenticate :: "string \<Rightarrow> string \<Rightarrow> 's \<Rightarrow> error + 'u option"
  User_Name :: "'u \<Rightarrow> string"
  Authorize_Write :: "'u option \<Rightarrow> string \<Rightarrow> string + bool"
  DatabaseExists :: "string \<Rightarrow> 's \<Rightarrow> bool"
  WriteSeries :: "string \<Rightarrow> string \<Rightarrow> 'v Point list \<Rightarrow> 's \<Rightarrow> error option \<times> 's"
  ExecuteQuery :: "'q \<Rightarrow> string \<Rightarrow> 'u option \<Rightarrow> 's \<Rightarrow> 'r \<times> 's"
  Results_Error :: "'r \<Rightarrow> error option"
  CopyMetastore :: "'s \<Rightarrow> string list \<times> error option"
  Server_ID :: "'s \<Rightarrow> 64 word"
  Server_Index :: "'s \<Rightarrow> 64 word"
  DataNodes :: "'s \<Rightarrow> DataNode list"
  CreateDataNode :: "string \<Rightarrow> 's \<Rightarrow> error option \<times> 's"
  DataNodeByURL :: "string \<Rightarrow> 's \<Rightarrow> DataNode option"
  CreateReplica :: "64 word \<Rightarrow> 's \<Rightarrow> error option \<times> 's"
  DeleteDataNode :: "64 word \<Rightarrow> 's \<Rightarrow> error option \<times> 's"
  RunContinuousQueries :: "'s \<Rightarrow> error option \<times> 's"

subsection \<open>String helpers of package strings\<close>

fun HasPrefix :: "string \<Rightarrow> string \<Rightarrow> bool" where
  "HasPrefix s [] = True"
| "HasPrefix [] (c # cs) = False"
| "HasPrefix (d # ds) (c # cs) = (d = c \<and> HasPrefix ds cs)"

fun Contains :: "string \<Rightarrow> string \<Rightarrow> bool" where
  "Contains [] substr = (substr = [])"
| "Contains (c # cs) substr = (HasPrefix (c # cs) substr \<or> Contains cs substr)"

fun Join :: "string list \<Rightarrow> string \<Rightarrow> string" where
  "Join [] sep = []"
| "Join [x] sep = x"
| "Join (x # y # ys) sep = x @ sep @ Join (y # ys) sep"

subsection \<open>Writing results and errors\<close>

definition isAuthorizationError :: "error \<Rightarrow> bool" where
  "isAuthorizationError err = (case err of ErrAuthorize _ \<Rightarrow> True | _ \<Rightarrow> False)"

definition httpResults ::
  "('s, 'u, 'v, 'q, 'r) server_ops \<Rightarrow> 'r \<Rightarrow> bool \<Rightarrow> 'r ResponseWriter \<Rightarrow> 'r ResponseWriter" where
  "httpResults ops results pretty rw =
     (let rw1 = (case Results_Error ops results of
                   None \<Rightarrow> rw
                 | Some err \<Rightarrow>
                     if isAuthorizationError err then WriteHeader StatusUnauthorized rw
                     else WriteHeader StatusInternalServerError rw);
          rw2 = Header_Add ''content-type'' ''application/json'' rw1
      in Write (JSON_Results results pretty) rw2)"

definition httpError :: "string \<Rightarrow> bool \<Rightarrow> nat \<Rightarrow> 'r ResponseWriter \<Rightarrow> 'r ResponseWriter" where
  "httpError msg pretty code rw =
     (let rw1 = Header_Add ''content-type'' ''application/json'' rw;
          rw2 = WriteHeader code rw1
      in Write (JSON_Results_Err (ErrorsNew msg) pretty) rw2)"

text \<open>The closure \<^verbatim>\<open>writeError\<close> of \<^verbatim>\<open>serveWrite\<close>, on a \<^verbatim>\<open>Result{Err: err}\<close>.\<close>

definition writeError :: "error \<Rightarrow> nat \<Rightarrow> 'r ResponseWriter \<Rightarrow> 'r ResponseWriter" where
  "writeError err statusCode rw =
     (let rw1 = WriteHeader statusCode rw;
          rw2 = Header_Add ''content-type'' ''application/json'' rw1
      in Write (JSON_Result err) rw2)"

subsection \<open>The handlers\<close>

definition serveQuery ::
  "('v, 'q, 'r) lib \<Rightarrow> ('s, 'u, 'v, 'q, 'r) server_ops \<Rightarrow> 'u option \<Rightarrow> ('s, 'r) handler" where
  "serveQuery env ops user st =
     (let q = URL_Query (request st);
          db = mm_Get q ''db'';
          pretty = (mm_Get q ''pretty'' = ''true'')
      in case ParseQuery env (mm_Get q ''q'') of
           Inl err \<Rightarrow>
             Returned (on_writer (httpError (''error parsing query: '' @ Error err) pretty
                                    StatusBadRequest) st)
         | Inr query \<Rightarrow>
             (case ExecuteQuery ops query db user (server st) of
                (results, s') \<Rightarrow>
                  Returned (on_writer (httpResults ops results pretty) (st\<lparr>server := s'\<rparr>))))"

text \<open>
  \<^verbatim>\<open>dec.Decode(&bp)\<close>: the decoder reads the next JSON value of the body and hands it
  to \<^verbatim>\<open>UnmarshalJSON\<close>.
\<close>

definition Decode_BatchPoints :: "('v, 'q, 'r) lib \<Rightarrow> string \<Rightarrow> error + ('v, time) BatchPoints" where
  "Decode_BatchPoints env b =
     (case json_value env b of
        Inl err \<Rightarrow> Inl err
      | Inr v \<Rightarrow>
          UnmarshalJSON (unm_epoch env) (unm_normal env) (client_EpochToTime env)
            (client_SetPrecision env) v)"

text \<open>
  In the branch of the unauthorized write, \<^verbatim>\<open>user.Name\<close> is read through the pointer:
  a nil user panics there.
\<close>

definition serveWrite ::
  "('v, 'q, 'r) lib \<Rightarrow> ('s, 'u, 'v, 'q, 'r) server_ops \<Rightarrow> bool \<Rightarrow> 'u option \<Rightarrow> ('s, 'r) handler" where
  "serveWrite env ops requireAuthentication user st =
     (case Decode_BatchPoints env (Body (request st)) of
        Inl err \<Rightarrow>
          if Error err = ''EOF'' then Returned (on_writer (WriteHeader StatusOK) st)
          else Returned (on_writer (writeError err StatusInternalServerError) st)
      | Inr bp \<Rightarrow>
          if Database bp = [] then
            Returned (on_writer (writeError (ErrorsNew ''database is required'')
                                   StatusInternalServerError) st)
          else if \<not> DatabaseExists ops (Database bp) (server st) then
            Returned (on_writer (writeError
                        (ErrorsNew (''database not found: '' @ strconv_Quote env (Database bp)))
                        StatusNotFound) st)
          else
            (case (if requireAuthentication then Authorize_Write ops user (Database bp)
                   else Inr True) of
               Inl p \<Rightarrow> Panicked p st
             | Inr False \<Rightarrow>
                 (case user of
                    None \<Rightarrow> Panicked ''invalid memory address or nil pointer dereference'' st
                  | Some u \<Rightarrow>
                      Returned (on_writer (writeError
                        (ErrorsNew (strconv_Quote env (User_Name ops u)
                                    @ '' user is not authorized to write to database ''
                                    @ strconv_Quote env (Database bp)))
                        StatusUnauthorized) st))
             | Inr True \<Rightarrow>
                 (case NormalizeBatchPoints (client_SetPrecision env) bp of
                    Inl err \<Rightarrow>
                      Returned (on_writer (writeError err StatusInternalServerError) st)
                  | Inr points \<Rightarrow>
                      (case WriteSeries ops (Database bp) (RetentionPolicy bp) points (server st) of
                         (Some err, s') \<Rightarrow>
                           Returned (on_writer (writeError err StatusInternalServerError)
                                       (st\<lparr>server := s'\<rparr>))
                       | (None, s') \<Rightarrow> Returned (st\<lparr>server := s'\<rparr>)))))"

definition serveMetastore ::
  "('v, 'q, 'r) lib \<Rightarrow> ('s, 'u, 'v, 'q, 'r) server_ops \<Rightarrow> ('s, 'r) handler" where
  "serveMetastore env ops st =
     (let st1 = on_writer (Header_Set ''Content-Type'' ''application/octet-stream'') st;
          st2 = on_writer (Header_Set ''Content-Disposition''
                            (''attachment; filename='' @ [CHR 0x22] @ ''meta'' @ [CHR 0x22]))
                 st1
      in case CopyMetastore ops (server st2) of
           (chunks, err) \<Rightarrow>
             (let st3 = on_writer (\<lambda>rw. fold (\<lambda>c. Write (Bytes c)) chunks rw) st2
              in case err of
                   None \<Rightarrow> Returned st3
                 | Some e \<Rightarrow>
                     Returned (on_writer (httpError (Error e) False StatusInternalServerError) st3)))"

definition serveStatus ::
  "('v, 'q, 'r) lib \<Rightarrow> ('s, 'u, 'v, 'q, 'r) server_ops \<Rightarrow> ('s, 'r) handler" where
  "serveStatus env ops st =
     (let st1 = on_writer (Header_Add ''content-type'' ''application/json'') st;
          pretty = (mm_Get (URL_Query (request st1)) ''pretty'' = ''true'')
      in Returned (on_writer
           (Write (JSON_Status (Server_ID ops (server st1)) (Server_Index ops (server st1)) pretty))
           st1))"

definition servePing ::
  "('v, 'q, 'r) lib \<Rightarrow> ('s, 'u, 'v, 'q, 'r) server_ops \<Rightarrow> ('s, 'r) handler" where
  "servePing env ops st = Returned (on_writer (WriteHeader StatusNoContent) st)"

definition serveDataNodes ::
  "('v, 'q, 'r) lib \<Rightarrow> ('s, 'u, 'v, 'q, 'r) server_ops \<Rightarrow> ('s, 'r) handler" where
  "serveDataNodes env ops st =
     (let a = map (\<lambda>n. \<lparr> ID = DataNode.ID n, URL = DataNode.URL n \<rparr>) (DataNodes ops (server st));
          st1 = on_writer (Header_Add ''content-type'' ''application/json'') st
      in Returned (on_writer (Write (JSON_dataNodes a)) st1))"

text \<open>
  \<^verbatim>\<open>DataNodeByURL\<close> returns a pointer, and \<^verbatim>\<open>node.ID\<close> is read through it: a nil
  node panics there.
\<close>

definition serveCreateDataNode ::
  "('v, 'q, 'r) lib \<Rightarrow> ('s, 'u, 'v, 'q, 'r) server_ops \<Rightarrow> ('s, 'r) handler" where
  "serveCreateDataNode env ops st =
     (case decode_dataNode env (Body (request st)) of
        Inl err \<Rightarrow> Returned (on_writer (httpError (Error err) False StatusBadRequest) st)
      | Inr n \<Rightarrow>
          (case url_Parse env (dataNodeJSON.URL n) of
             Inl err \<Rightarrow>
               Returned (on_writer (httpError ''invalid data node url'' False StatusBadRequest) st)
           | Inr u \<Rightarrow>
               (case CreateDataNode ops u (server st) of
                  (Some err, s1) \<Rightarrow>
                    if err = ErrDataNodeExists then
                      Returned (on_writer (httpError (Error err) False StatusConflict)
                                  (st\<lparr>server := s1\<rparr>))
                    else
                      Returned (on_writer (httpError (Error err) False StatusInternalServerError)
                                  (st\<lparr>server := s1\<rparr>))
                | (None, s1) \<Rightarrow>
                    (case DataNodeByURL ops u s1 of
                       None \<Rightarrow>
                         Panicked ''invalid memory address or nil pointer dereference''
                           (st\<lparr>server := s1\<rparr>)
                     | Some node \<Rightarrow>
                         (case CreateReplica ops (DataNode.ID node) s1 of
                            (Some err, s2) \<Rightarrow>
                              Returned (on_writer (httpError (Error err) False StatusBadGateway)
                                          (st\<lparr>server := s2\<rparr>))
                          | (None, s2) \<Rightarrow>
                              (let st1 = on_writer (WriteHeader StatusCreated) (st\<lparr>server := s2\<rparr>);
                                   st2 = on_writer (Header_Add ''content-type'' ''application/json'') st1
                               in Returned (on_writer
                                    (Write (JSON_dataNode
                                       \<lparr> ID = DataNode.ID node, URL = DataNode.URL node \<rparr>))
                                    st2)))))))"

definition serveDeleteDataNode ::
  "('v, 'q, 'r) lib \<Rightarrow> ('s, 'u, 'v, 'q, 'r) server_ops \<Rightarrow> ('s, 'r) handler" where
  "serveDeleteDataNode env ops st =
     (case strconv_ParseUint env (mm_Get (URL_Query (request st)) '':id'') of
        Inl err \<Rightarrow> Returned (on_writer (httpError ''invalid node id'' False StatusBadRequest) st)
      | Inr nodeID \<Rightarrow>
          (case DeleteDataNode ops nodeID (server st) of
             (Some err, s1) \<Rightarrow>
               if err = ErrDataNodeNotFound then
                 Returned (on_writer (httpError (Error err) False StatusNotFound)
                             (st\<lparr>server := s1\<rparr>))
               else
                 Returned (on_writer (httpError (Error err) False StatusInternalServerError)
                             (st\<lparr>server := s1\<rparr>))
           | (None, s1) \<Rightarrow> Returned (on_writer (WriteHeader StatusNoContent) (st\<lparr>server := s1\<rparr>))))"

definition serveProcessContinuousQueries ::
  "('v, 'q, 'r) lib \<Rightarrow> ('s, 'u, 'v, 'q, 'r) server_ops \<Rightarrow> 'u option \<Rightarrow> ('s, 'r) handler" where
  "serveProcessContinuousQueries env ops u st =
     (case RunContinuousQueries ops (server st) of
        (Some err, s1) \<Rightarrow>
          Returned (on_writer (httpError (Error err) False StatusInternalServerError)
                      (st\<lparr>server := s1\<rparr>))
      | (None, s1) \<Rightarrow> Returned (on_writer (WriteHeader StatusAccepted) (st\<lparr>server := s1\<rparr>)))"

subsection \<open>Filters\<close>

definition parseCredentials :: "Request \<Rightarrow> error + string \<times> string" where
  "parseCredentials rq =
     (let q = URL_Query rq; u = mm_Get q ''u''; p = mm_Get q ''p''
      in if u \<noteq> [] \<and> p \<noteq> [] then Inr (u, p)
         else (case BasicAuth rq of
                 Some (u, p) \<Rightarrow> Inr (u, p)
               | None \<Rightarrow> Inl (ErrorsNew ''unable to parse Basic Auth credentials'')))"

definition authenticate ::
  "('s, 'u, 'v, 'q, 'r) server_ops \<Rightarrow> ('u option \<Rightarrow> ('s, 'r) handler) \<Rightarrow> bool
     \<Rightarrow> ('s, 'r) handler" where
  "authenticate ops inner requireAuthentication st =
     (if \<not> requireAuthentication then inner None st
      else if requireAuthentication \<and> UserCount ops (server st) > 0 then
        (case parseCredentials (request st) of
           Inl err \<Rightarrow> Returned (on_writer (httpError (Error err) False StatusUnauthorized) st)
         | Inr (username, password) \<Rightarrow>
             if username = [] then
               Returned (on_writer (httpError ''username required'' False StatusUnauthorized) st)
             else
               (case Authenticate ops username password (server st) of
                  Inl err \<Rightarrow>
                    Returned (on_writer (httpError (Error err) False StatusUnauthorized) st)
                | Inr user \<Rightarrow> inner user st))
      else inner None st)"

text \<open>
  \<^verbatim>\<open>defer gz.Close()\<close> runs when the function returns and when it unwinds, so the
  gzip writer is closed after a panic of the inner handler too.
\<close>

fun after :: "'a outcome \<Rightarrow> ('a \<Rightarrow> 'a) \<Rightarrow> 'a outcome" where
  "after (Returned st) f = Returned (f st)"
| "after (Panicked p st) f = Panicked p (f st)"

definition gzipFilter :: "('s, 'r) handler \<Rightarrow> ('s, 'r) handler" where
  "gzipFilter inner st =
     (if \<not> Contains (mm_Get (Header (request st)) ''Accept-Encoding'') ''gzip'' then inner st
      else
        (let st1 = on_writer (Header_Set ''Content-Encoding'' ''gzip'') st;
             st2 = on_writer (\<lambda>rw. rw\<lparr>gzw := Some []\<rparr>) st1
         in after (inner st2) (on_writer gz_Close)))"

definition versionHeader :: "('s, 'r) handler \<Rightarrow> string \<Rightarrow> ('s, 'r) handler" where
  "versionHeader inner version st =
     inner (on_writer (Header_Add ''X-Influxdb-Version'' version) st)"

definition cors :: "('s, 'r) handler \<Rightarrow> ('s, 'r) handler" where
  "cors inner st =
     (let origin = mm_Get (Header (request st)) ''Origin'';
          st1 = (if origin \<noteq> [] then
                   on_writer
                     (Header_Set ''Access-Control-Allow-Headers''
                        (Join [''Accept'', ''Accept-Encoding'', ''Authorization'', ''Content-Length'',
                               ''Content-Type'', ''X-CSRF-Token'', ''X-HTTP-Method-Override''] '', ''))
                     (on_writer
                        (Header_Set ''Access-Control-Allow-Methods''
                           (Join [''DELETE'', ''GET'', ''OPTIONS'', ''POST'', ''PUT''] '', ''))
                        (on_writer (Header_Set ''Access-Control-Allow-Origin'' origin) st))
                 else st)
      in if Method (request st1) = ''OPTIONS'' then Returned st1 else inner st1)"

definition requestID :: "('v, 'q, 'r) lib \<Rightarrow> ('s, 'r) handler \<Rightarrow> ('s, 'r) handler" where
  "requestID env inner st =
     (let uid = uuid_NewUUID env (calls st);
          st0 = st\<lparr>calls := calls st @ [Call_NewUUID]\<rparr>;
          st1 = st0\<lparr>request := (request st0)\<lparr>Header := mm_Set ''Request-Id'' uid (Header (request st0))\<rparr>\<rparr>;
          st2 = on_writer (Header_Set ''Request-Id'' (mm_Get (Header (request st1)) ''Request-Id'')) st1
      in inner st2)"

text \<open>
  In \<^verbatim>\<open>logging\<close> the statements after the call of the inner handler run only when it
  returns: a panic unwinds through the function.
\<close>

definition logging ::
  "('v, 'q, 'r) lib \<Rightarrow> ('s, 'r) handler \<Rightarrow> string \<Rightarrow> ('s, 'r) handler" where
  "logging env inner name st =
     (let start = time_Now env (calls st);
          st0 = st\<lparr>calls := calls st @ [Call_Now]\<rparr>
      in case inner st0 of
           Panicked p st1 \<Rightarrow> Panicked p st1
         | Returned st1 \<Rightarrow>
             (let logLine = buildLogLine env (writer st1) (request st1) start
              in Returned (st1\<lparr>weblog := weblog st1 @ [logLine]\<rparr>)))"

text \<open>
  \<^verbatim>\<open>recover()\<close> stops a panic only when a deferred function calls it. \<^verbatim>\<open>recovery\<close>
  calls it in the body of the handler, after the inner handler has returned: there it is
  reached only when nothing panics, and its value is nil. \<open>recover_in_body\<close> is that
  value; the branch that logs is the source's \<^verbatim>\<open>if err := recover(); err != nil\<close>.
\<close>

definition recover_in_body :: "string option" where
  "recover_in_body = None"

definition recovery ::
  "('v, 'q, 'r) lib \<Rightarrow> ('s, 'r) handler \<Rightarrow> string \<Rightarrow> ('s, 'r) handler" where
  "recovery env inner name st =
     (let start = time_Now env (calls st);
          st0 = st\<lparr>calls := calls st @ [Call_Now]\<rparr>
      in case inner st0 of
           Panicked p st1 \<Rightarrow> Panicked p st1
         | Returned st1 \<Rightarrow>
             (case recover_in_body of
                None \<Rightarrow> Returned st1
              | Some err \<Rightarrow>
                  (let logLine = buildLogLine env (writer st1) (request st1) start;
                       logLine = logLine @ '' [err:'' @ err @ '']''
                   in Returned (st1\<lparr>weblog := weblog st1 @ [logLine]\<rparr>))))"

subsection \<open>NewHandler\<close>

text \<open>
  The \<^verbatim>\<open>handlerFunc\<close> of a route is an \<^verbatim>\<open>interface{}\<close> holding a function of one of
  two signatures, which the loop of \<^verbatim>\<open>NewHandler\<close> tells apart by type assertion.
  The field \<^verbatim>\<open>method\<close> of a route is \<open>http_method\<close> here.
\<close>

datatype ('s, 'u, 'r) handlerFunc =
    WithUser "'u option \<Rightarrow> ('s, 'r) handler"
  | Plain "('s, 'r) handler"

record ('s, 'u, 'r) route =
  name :: string
  http_method :: string
  pattern :: string
  handlerFunc :: "('s, 'u, 'r) handlerFunc"

definition routes_of ::
  "('v, 'q, 'r) lib \<Rightarrow> ('s, 'u, 'v, 'q, 'r) server_ops \<Rightarrow> bool \<Rightarrow> ('s, 'u, 'r) route list" where
  "routes_of env ops requireAuthentication =
     [ \<lparr> name = ''query'', http_method = ''GET'', pattern = ''/query'',
         handlerFunc = WithUser (serveQuery env ops) \<rparr>,
       \<lparr> name = ''write'', http_method = ''POST'', pattern = ''/write'',
         handlerFunc = WithUser (serveWrite env ops requireAuthentication) \<rparr>,
       \<lparr> name = ''data_nodes_index'', http_method = ''GET'', pattern = ''/data_nodes'',
         handlerFunc = Plain (serveDataNodes env ops) \<rparr>,
       \<lparr> name = ''data_nodes_create'', http_method = ''POST'', pattern = ''/data_nodes'',
         handlerFunc = Plain (serveCreateDataNode env ops) \<rparr>,
       \<lparr> name = ''data_nodes_delete'', http_method = ''DELETE'', pattern = ''/data_nodes/:id'',
         handlerFunc = Plain (serveDeleteDataNode env ops) \<rparr>,
       \<lparr> name = ''metastore'', http_method = ''GET'', pattern = ''/metastore'',
         handlerFunc = Plain (serveMetastore env ops) \<rparr>,
       \<lparr> name = ''status'', http_method = ''GET'', pattern = ''/status'',
         handlerFunc = Plain (serveStatus env ops) \<rparr>,
       \<lparr> name = ''ping'', http_method = ''GET'', pattern = ''/ping'',
         handlerFunc = Plain (servePing env ops) \<rparr>,
       \<lparr> name = ''process_continuous_queries'', http_method = ''POST'',
         pattern = ''/process_continuous_queries'',
         handlerFunc = WithUser (serveProcessContinuousQueries env ops) \<rparr> ]"

text \<open>The body of the loop over the routes: the handler that is added to the mux.\<close>

definition wrap_route ::
  "('v, 'q, 'r) lib \<Rightarrow> ('s, 'u, 'v, 'q, 'r) server_ops \<Rightarrow> bool \<Rightarrow> string
     \<Rightarrow> ('s, 'u, 'r) route \<Rightarrow> ('s, 'r) handler" where
  "wrap_route env ops requireAuthentication version r =
     (let handler = (case handlerFunc r of
                       WithUser hf \<Rightarrow> authenticate ops hf requireAuthentication
                     | Plain hf \<Rightarrow> hf);
          handler = gzipFilter handler;
          handler = versionHeader handler version;
          handler = cors handler;
          handler = requestID env handler;
          handler = logging env handler (name r);
          handler = recovery env handler (name r)
      in handler)"

text \<open>
  The \<^verbatim>\<open>Handler\<close> that \<^verbatim>\<open>NewHandler\<close> returns; the mux (package pat, not in the
  files) is the list of what was added to it: method, pattern, handler.
\<close>

record ('s, 'u, 'r) Handler =
  routes :: "('s, 'u, 'r) route list"
  mux :: "(string \<times> string \<times> ('s, 'r) handler) list"
  requireAuthentication :: bool

definition NewHandler ::
  "('v, 'q, 'r) lib \<Rightarrow> ('s, 'u, 'v, 'q, 'r) server_ops \<Rightarrow> bool \<Rightarrow> string
     \<Rightarrow> ('s, 'u, 'r) Handler" where
  "NewHandler env ops reqAuth version =
     (let rs = routes_of env ops reqAuth
      in \<lparr> routes = rs,
           mux = map (\<lambda>r. (http_method r, pattern r, wrap_route env ops reqAuth version r)) rs,
           requireAuthentication = reqAuth \<rparr>)"

section \<open>An instance of the parameters\<close>

text \<open>
  The theorems below hold for every library and every server. To run the handlers on
  concrete requests, the parameters are instantiated here with a small server and with
  decoders that know a few bodies.
\<close>

text \<open>
  Modelled from the spec: \<^verbatim>\<open>client.EpochToTime\<close>, which is not in the files: an
  integer timestamp is an epoch "at the given precision", anything but u, ms, s, m and h
  meaning nanoseconds. \<open>Unix\<close> is \<^verbatim>\<open>time.Unix\<close>: the Unix epoch is 62135596800
  seconds after Go's zero instant.
\<close>

definition Unix :: "int \<Rightarrow> int \<Rightarrow> time" where
  "Unix sec nsec = (62135596800 + sec) * 1000000000 + nsec"

definition EpochToTime_spec :: "64 word \<Rightarrow> string \<Rightarrow> error + time" where
  "EpochToTime_spec epoch p = Inr (Unix 0 (sint epoch * precision_unit p))"

record toy_server =
  users :: "(string \<times> string) list"
  databases :: "string list"
  series :: "(string \<times> string \<times> int Point list) list"
  nodes :: "DataNode list"
  replicas :: "64 word list"

text \<open>
  The server follows the spec's registry: a data node with a URL that is already there is
  refused with \<open>ErrDataNodeExists\<close>. A user is its name; every user may write, and the
  check of a nil user answers false.
\<close>

definition toy_ops :: "(toy_server, string, int, string, error option) server_ops" where
  "toy_ops =
     \<lparr> UserCount = (\<lambda>s. int (length (users s))),
       Authenticate = (\<lambda>u p s. if (u, p) \<in> set (users s) then Inr (Some u)
                                else Inl (ErrorsNew ''invalid password'')),
       User_Name = (\<lambda>u. u),
       Authorize_Write = (\<lambda>user db. case user of None \<Rightarrow> Inr False | Some u \<Rightarrow> Inr True),
       DatabaseExists = (\<lambda>db s. db \<in> set (databases s)),
       WriteSeries = (\<lambda>db rp pts s. (None, s\<lparr>series := series s @ [(db, rp, pts)]\<rparr>)),
       ExecuteQuery = (\<lambda>q db user s. (None, s)),
       Results_Error = (\<lambda>res. res),
       CopyMetastore = (\<lambda>s. ([], None)),
       Server_ID = (\<lambda>s. 1),
       Server_Index = (\<lambda>s. 0),
       DataNodes = nodes,
       CreateDataNode = (\<lambda>u s.
         if u \<in> set (map DataNode.URL (nodes s)) then (Some ErrDataNodeExists, s)
         else (None, s\<lparr>nodes := nodes s
                 @ [\<lparr>DataNode.ID = of_nat (length (nodes s)) + 1, URL = u\<rparr>]\<rparr>)),
       DataNodeByURL = (\<lambda>u s. find (\<lambda>n. DataNode.URL n = u) (nodes s)),
       CreateReplica = (\<lambda>i s. (None, s\<lparr>replicas := replicas s @ [i]\<rparr>)),
       DeleteDataNode = (\<lambda>i s.
         if i \<in> set (map DataNode.ID (nodes s))
         then (None, s\<lparr>nodes := filter (\<lambda>n. DataNode.ID n \<noteq> i) (nodes s)\<rparr>)
         else (Some ErrDataNodeNotFound, s)),
       RunContinuousQueries = (\<lambda>s. (None, s)) \<rparr>"

text \<open>
  The bodies that the decoders know, and the structs that \<^verbatim>\<open>encoding/json\<close> gives for
  them: an empty object, an object naming a database, and a batch of one point with an
  integer timestamp in seconds or with a time in ISO 8601.
\<close>

definition body_empty_object :: string where
  "body_empty_object = ''{}''"

definition body_database_nope :: string where
  \<open>body_database_nope = ''{"database":"nope"}''\<close>

definition body_cpu :: string where
  \<open>body_cpu = ''{"database":"db","timestamp":1700000000,"precision":"s","points":[{"name":"cpu","values":{"v":1}}]}''\<close>

definition body_cpu_iso :: string where
  \<open>body_cpu_iso = ''{"database":"db","timestamp":"2020-01-01T00:00:00Z","points":[{"name":"cpu","values":{"v":1}}]}''\<close>

definition cpu_point :: "int client_Point" where
  "cpu_point = \<lparr> client_Point.Name = ''cpu'', Tags = None, Timestamp = 0,
                 Values = Some [(''v'', 1)], Precision = [] \<rparr>"

definition toy_unm_epoch :: "string \<Rightarrow> error + (int, 64 word option) BatchPoints" where
  "toy_unm_epoch b =
     (if b = body_empty_object then
        Inr \<lparr> Points = [], Database = [], RetentionPolicy = [], Tags = None,
              Timestamp = None, Precision = [] \<rparr>
      else if b = body_database_nope then
        Inr \<lparr> Points = [], Database = ''nope'', RetentionPolicy = [], Tags = None,
              Timestamp = None, Precision = [] \<rparr>
      else if b = body_cpu then
        Inr \<lparr> Points = [cpu_point], Database = ''db'', RetentionPolicy = [], Tags = None,
              Timestamp = Some 1700000000, Precision = ''s'' \<rparr>
      else if b = body_cpu_iso then
        Inl (ErrorsNew ''json: cannot unmarshal string into Go value of type int64'')
      else Inl (ErrorsNew ''invalid character''))"

definition toy_unm_normal :: "string \<Rightarrow> error + (int, time) BatchPoints" where
  "toy_unm_normal b =
     (if b = body_empty_object then
        Inr \<lparr> Points = [], Database = [], RetentionPolicy = [], Tags = None,
              Timestamp = 0, Precision = [] \<rparr>
      else if b = body_database_nope then
        Inr \<lparr> Points = [], Database = ''nope'', RetentionPolicy = [], Tags = None,
              Timestamp = 0, Precision = [] \<rparr>
      else if b = body_cpu_iso then
        Inr \<lparr> Points = [cpu_point], Database = ''db'', RetentionPolicy = [], Tags = None,
              Timestamp = Unix 1577836800 0, Precision = [] \<rparr>
      else Inl (ErrorsNew ''invalid character''))"

text \<open>
  The decoder's reader gives \<^verbatim>\<open>io.EOF\<close> on an empty body and
  \<^verbatim>\<open>io.ErrUnexpectedEOF\<close> on a body that stops after its first brace. A data node's
  body is read as the node's URL, and a URL is refused when it starts with a colon. The
  clock advances by one nanosecond with every call of the history; a UUID spells the
  history, t for a call of the clock and u for a call of the generator; a log line is the
  request's method and one n for every nanosecond of its start after 1700000000 s.
\<close>

definition toy_lib :: "(int, string, error option) lib" where
  "toy_lib =
     \<lparr> json_value = (\<lambda>b. if b = [] then Inl (ErrorsNew ''EOF'')
                          else if b = ''{'' then Inl (ErrorsNew ''unexpected EOF'')
                          else Inr b),
       unm_epoch = toy_unm_epoch,
       unm_normal = toy_unm_normal,
       client_EpochToTime = EpochToTime_spec,
       client_SetPrecision = SetPrecision_spec,
       decode_dataNode = (\<lambda>b. if b = [] then Inl (ErrorsNew ''EOF'')
                               else Inr \<lparr> dataNodeJSON.ID = 0, URL = b \<rparr>),
       url_Parse = (\<lambda>u. if HasPrefix u '':'' then Inl (ErrorsNew ''missing protocol scheme'')
                         else Inr u),
       strconv_Quote = (\<lambda>x. [CHR 0x22] @ x @ [CHR 0x22]),
       strconv_ParseUint = (\<lambda>x. if x = ''1'' then Inr 1 else Inl (ErrorsNew ''invalid syntax'')),
       ParseQuery = (\<lambda>x. if x = [] then Inl (ErrorsNew ''unexpected end of query'') else Inr x),
       time_Now = (\<lambda>h. Unix 1700000000 (int (length h))),
       uuid_NewUUID = (\<lambda>h. ''uuid-'' @ map (\<lambda>c. case c of Call_Now \<Rightarrow> CHR ''t''
                                                     | Call_NewUUID \<Rightarrow> CHR ''u'') h),
       buildLogLine = (\<lambda>rw rq start.
         Method rq @ '' +'' @ replicate (nat (start - Unix 1700000000 0)) (CHR ''n'')) \<rparr>"

text \<open>Batches for \<^verbatim>\<open>NormalizeBatchPoints\<close>.\<close>

definition batch_no_time :: "(int, time) BatchPoints" where
  "batch_no_time =
     \<lparr> Points = [cpu_point], Database = ''db'', RetentionPolicy = [], Tags = None,
       Timestamp = 0, Precision = [] \<rparr>"

definition batch_seconds :: "(int, time) BatchPoints" where
  "batch_seconds =
     \<lparr> Points = [cpu_point], Database = ''db'', RetentionPolicy = [], Tags = None,
       Timestamp = Unix 1700000000 5, Precision = ''s'' \<rparr>"

definition batch_blank_point :: "(int, time) BatchPoints" where
  "batch_blank_point =
     \<lparr> Points = [\<lparr> client_Point.Name = [], Tags = None, Timestamp = Unix 1700000000 0,
                    Values = None, Precision = [] \<rparr>],
       Database = ''db'', RetentionPolicy = [], Tags = None, Timestamp = 0, Precision = [] \<rparr>"

definition batch_host_a :: "(int, time) BatchPoints" where
  "batch_host_a =
     \<lparr> Points = [cpu_point, cpu_point\<lparr> client_Point.Tags := Some [(''host'', ''b''), (''dc'', [])] \<rparr>],
       Database = ''db'', RetentionPolicy = [], Tags = Some [(''host'', ''a''), (''dc'', ''x'')],
       Timestamp = Unix 1700000000 0, Precision = [] \<rparr>"

definition batch_empty_tag :: "(int, time) BatchPoints" where
  "batch_empty_tag =
     \<lparr> Points = [cpu_point\<lparr> client_Point.Tags := Some [(''host'', [])] \<rparr>],
       Database = ''db'', RetentionPolicy = [], Tags = Some [(''host'', ''a'')],
       Timestamp = Unix 1700000000 0, Precision = [] \<rparr>"

definition toy_server0 :: toy_server where
  "toy_server0 = \<lparr> users = [], databases = [''db''], series = [], nodes = [], replicas = [] \<rparr>"

definition toy_server1 :: toy_server where
  "toy_server1 = toy_server0\<lparr> users := [(''admin'', ''secret'')] \<rparr>"



definition new_writer :: "'r ResponseWriter" where
  "new_writer = \<lparr> status = None, header = [], body = [], gzw = None \<rparr>"

definition toy_request :: "string \<Rightarrow> string \<Rightarrow> Request" where
  "toy_request m b = \<lparr> Method = m, URL_Query = [], Header = [], BasicAuth = None, Body = b \<rparr>"

definition toy_state :: "toy_server \<Rightarrow> string \<Rightarrow> string \<Rightarrow> (toy_server, error option) state" where
  "toy_state s m b =
     \<lparr> request = toy_request m b, writer = new_writer, server = s, weblog = [], calls = [] \<rparr>"

text \<open>A state whose request carries Basic Auth credentials.\<close>

definition with_BasicAuth :: "string \<Rightarrow> string \<Rightarrow> ('s, 'r) state \<Rightarrow> ('s, 'r) state" where
  "with_BasicAuth u p st = st\<lparr>request := (request st)\<lparr>BasicAuth := Some (u, p)\<rparr>\<rparr>"

section \<open>Properties of NormalizeBatchPoints\<close>

lemma normalize_loop_eq:
  "normalize_loop sp bp ps acc = acc @ map (normalize_point sp bp) ps"
  by (induction ps arbitrary: acc) simp_all

lemma NormalizeBatchPoints_eq:
  "NormalizeBatchPoints sp bp = Inr (map (normalize_point sp bp) (Points bp))"
  by (simp add: NormalizeBatchPoints_def normalize_loop_eq)

lemma index_map_update:
  "index_map (AList.update k v m) k' = (if k' = k then v else index_map m k')"
  by (simp add: index_map_def update_conv')

lemma index_map_Nil: "index_map [] k = []"
  by (simp add: index_map_def)

lemma index_map_in_keys:
  "k \<in> fst ` set bt \<Longrightarrow> Some (index_map bt k) = map_of bt k"
  by (cases "map_of bt k") (simp_all add: index_map_def map_of_eq_None_iff)

text \<open>
  The loop over the batch's keys, as a map: a key of the loop whose value on the point is
  empty (absent, or present with the empty string) gets the batch's value, and every other
  key is left alone. The order of the keys does not matter.
\<close>

lemma map_of_fill_tags:
  "map_of (fill_tags ks bt pt) k =
     (if k \<in> set ks \<and> index_map pt k = [] then Some (index_map bt k) else map_of pt k)"
proof (induction ks arbitrary: pt)
  case Nil
  then show ?case by simp
next
  case (Cons a ks)
  show ?case
  proof (cases "index_map pt a = []")
    case True
    then show ?thesis
      using Cons.IH [of "AList.update a (index_map bt a) pt"]
      by (auto simp: index_map_update update_conv')
  next
    case False
    then show ?thesis
      using Cons.IH [of pt] by auto
  qed
qed

lemma merge_tags_Some:
  assumes "bt \<noteq> []"
  shows "\<exists>m. merge_tags (Some bt) pt = Some m
          \<and> (\<forall>k. map_of m k =
                (if k \<in> fst ` set bt \<and> index_tags pt k = [] then map_of bt k
                 else (case pt of None \<Rightarrow> None | Some pm \<Rightarrow> map_of pm k)))"
proof (cases pt)
  case None
  have "merge_tags (Some bt) pt = Some (fill_tags (map fst bt) bt [])"
    using assms None by (simp add: merge_tags_def len_tags_def)
  then show ?thesis
    using None by (simp add: map_of_fill_tags index_tags_def index_map_Nil index_map_in_keys)
next
  case (Some pm)
  have "merge_tags (Some bt) pt = Some (fill_tags (map fst bt) bt pm)"
    using assms Some by (simp add: merge_tags_def len_tags_def)
  then show ?thesis
    using Some by (simp add: map_of_fill_tags index_tags_def index_map_in_keys)
qed

text \<open>
  C1, as the code has it. For every batch and every \<open>SetPrecision\<close>,
  \<^verbatim>\<open>NormalizeBatchPoints\<close> returns as many points as the batch has, and the timestamp of
  each is \<open>SetPrecision\<close> of the point's own timestamp when that is not zero and of the
  batch's timestamp otherwise, at the point's precision or, when the point has none, the
  batch's. No clock is read: a point without a timestamp in a batch without one gets
  \<open>SetPrecision\<close> of the zero time.
\<close>

theorem NormalizeBatchPoints_length_timestamps:
  "\<exists>ps. NormalizeBatchPoints sp bp = Inr ps
        \<and> length ps = length (Points bp)
        \<and> map Point.Timestamp ps =
            map (\<lambda>p. sp (if IsZero (client_Point.Timestamp p) then BatchPoints.Timestamp bp
                          else client_Point.Timestamp p)
                         (if client_Point.Precision p = [] \<and> BatchPoints.Precision bp \<noteq> []
                          then BatchPoints.Precision bp else client_Point.Precision p))
                (Points bp)"
  by (simp add: NormalizeBatchPoints_eq normalize_point_def Let_def o_def)

text \<open>
  The theorem on a batch at 1700000000 s and 5 ns with precision s, whose one point has
  no timestamp: the point gets the batch's time, in whole seconds.
\<close>

theorem NormalizeBatchPoints_length_timestamps_witness:
  "\<exists>ps. NormalizeBatchPoints SetPrecision_spec batch_seconds = Inr ps
        \<and> length ps = 1 \<and> map Point.Timestamp ps = [Unix 1700000000 0]"
  using NormalizeBatchPoints_length_timestamps [of SetPrecision_spec batch_seconds]
  by (simp add: batch_seconds_def cpu_point_def IsZero_def SetPrecision_spec_def
      precision_unit_def Unix_def)

text \<open>
  C1 as the spec states it fails: a point without a timestamp in a batch without a
  timestamp comes back with the zero timestamp, not with the time of the wall clock.
\<close>

theorem NormalizeBatchPoints_zero_timestamp_counterexample:
  "NormalizeBatchPoints SetPrecision_spec batch_no_time =
     Inr [\<lparr> Point.Name = ''cpu'', Tags = None, Timestamp = 0, Values = Some [(''v'', 1)] \<rparr>]"
  by (simp add: NormalizeBatchPoints_def batch_no_time_def cpu_point_def normalize_point_def
      IsZero_def SetPrecision_spec_def precision_unit_def merge_tags_def len_tags_def)

text \<open>
  C2, as the code has it. \<^verbatim>\<open>NormalizeBatchPoints\<close> validates nothing: for every batch
  it returns points and no error, and each point has the name and the values of the
  point it comes from, whatever they are.
\<close>

theorem NormalizeBatchPoints_never_fails:
  "\<exists>ps. NormalizeBatchPoints sp bp = Inr ps
        \<and> map Point.Name ps = map client_Point.Name (Points bp)
        \<and> map Point.Values ps = map client_Point.Values (Points bp)"
  by (simp add: NormalizeBatchPoints_eq normalize_point_def Let_def o_def)

theorem NormalizeBatchPoints_never_fails_witness:
  "\<exists>ps. NormalizeBatchPoints SetPrecision_spec batch_no_time = Inr ps
        \<and> map Point.Name ps = [''cpu''] \<and> map Point.Values ps = [Some [(''v'', 1)]]"
  using NormalizeBatchPoints_never_fails [of SetPrecision_spec batch_no_time]
  by (simp add: batch_no_time_def cpu_point_def)

text \<open>
  C2 as the spec states it fails: a batch whose point has an empty measurement name and
  no values is normalized without an error.
\<close>

theorem NormalizeBatchPoints_blank_point_counterexample:
  "NormalizeBatchPoints SetPrecision_spec batch_blank_point =
     Inr [\<lparr> Point.Name = [], Tags = None, Timestamp = Unix 1700000000 0, Values = None \<rparr>]"
  by (simp add: NormalizeBatchPoints_def batch_blank_point_def normalize_point_def
      IsZero_def SetPrecision_spec_def precision_unit_def merge_tags_def len_tags_def Unix_def)

text \<open>
  C3, as the code has it. When the batch has tags, every returned point has a tag map;
  in it, a key of the batch whose value on the point is the empty string (the key is
  absent from the point, or present with an empty value) has the batch's value, and every
  other key is as on the point. A point with no tags (a nil or an empty map) ends up with
  exactly the batch's tags.
\<close>

theorem NormalizeBatchPoints_tags:
  assumes "NormalizeBatchPoints sp bp = Inr ps"
    and "i < length (Points bp)"
    and "BatchPoints.Tags bp = Some bt" and "bt \<noteq> []"
  shows "\<exists>m. Point.Tags (ps ! i) = Some m
          \<and> (\<forall>k. map_of m k =
                (if k \<in> fst ` set bt \<and> index_tags (client_Point.Tags (Points bp ! i)) k = []
                 then map_of bt k
                 else (case client_Point.Tags (Points bp ! i) of
                         None \<Rightarrow> None | Some pm \<Rightarrow> map_of pm k)))
          \<and> (client_Point.Tags (Points bp ! i) = None \<or> client_Point.Tags (Points bp ! i) = Some []
               \<longrightarrow> map_of m = map_of bt)"
proof -
  have ps: "ps = map (normalize_point sp bp) (Points bp)"
    using assms(1) by (simp add: NormalizeBatchPoints_eq)
  have tg: "Point.Tags (ps ! i) = merge_tags (Some bt) (client_Point.Tags (Points bp ! i))"
    using assms(2,3) by (simp add: ps normalize_point_def Let_def)
  obtain m where m: "merge_tags (Some bt) (client_Point.Tags (Points bp ! i)) = Some m"
    and mk: "\<forall>k. map_of m k =
                (if k \<in> fst ` set bt \<and> index_tags (client_Point.Tags (Points bp ! i)) k = []
                 then map_of bt k
                 else (case client_Point.Tags (Points bp ! i) of
                         None \<Rightarrow> None | Some pm \<Rightarrow> map_of pm k))"
    using merge_tags_Some [OF assms(4)] by blast
  have "map_of m = map_of bt"
    if "client_Point.Tags (Points bp ! i) = None \<or> client_Point.Tags (Points bp ! i) = Some []"
  proof
    fix k
    show "map_of m k = map_of bt k"
      using that mk
      by (auto simp: index_tags_def index_map_def map_of_eq_None_iff [symmetric])
  qed
  with tg m mk show ?thesis by auto
qed

text \<open>
  The theorem on a batch with the tags host = a and dc = x and two points: the first
  has no tags and gets both; the second has host = b, which it keeps, and dc with an
  empty value, which is replaced.
\<close>

theorem NormalizeBatchPoints_tags_witness:
  "NormalizeBatchPoints SetPrecision_spec batch_host_a =
     Inr [\<lparr> Point.Name = ''cpu'', Tags = Some [(''host'', ''a''), (''dc'', ''x'')],
            Timestamp = Unix 1700000000 0, Values = Some [(''v'', 1)] \<rparr>,
          \<lparr> Point.Name = ''cpu'', Tags = Some [(''host'', ''b''), (''dc'', ''x'')],
            Timestamp = Unix 1700000000 0, Values = Some [(''v'', 1)] \<rparr>]
   \<and> 0 < length (Points batch_host_a)
   \<and> BatchPoints.Tags batch_host_a = Some [(''host'', ''a''), (''dc'', ''x'')]
   \<and> [(''host'', ''a''), (''dc'', ''x'')] \<noteq> ([] :: tagmap)
   \<and> client_Point.Tags (Points batch_host_a ! 0) = None
   \<and> (\<exists>m. Some [(''host'', ''a''), (''dc'', ''x'')] = Some m
          \<and> map_of m = map_of [(''host'', ''a''), (''dc'', ''x'')])"
proof -
  let ?ps = "[\<lparr> Point.Name = ''cpu'', Tags = Some [(''host'', ''a''), (''dc'', ''x'')],
            Timestamp = Unix 1700000000 0, Values = Some [(''v'', 1::int)] \<rparr>,
          \<lparr> Point.Name = ''cpu'', Tags = Some [(''host'', ''b''), (''dc'', ''x'')],
            Timestamp = Unix 1700000000 0, Values = Some [(''v'', 1)] \<rparr>]"
  have h1: "NormalizeBatchPoints SetPrecision_spec batch_host_a = Inr ?ps"
    by (simp add: NormalizeBatchPoints_def batch_host_a_def cpu_point_def normalize_point_def
      IsZero_def SetPrecision_spec_def precision_unit_def merge_tags_def len_tags_def Unix_def
      index_map_def)
  have h2: "0 < length (Points batch_host_a)" by (simp add: batch_host_a_def)
  have h3: "BatchPoints.Tags batch_host_a = Some [(''host'', ''a''), (''dc'', ''x'')]"
    by (simp add: batch_host_a_def)
  have h4: "[(''host'', ''a''), (''dc'', ''x'')] \<noteq> ([] :: tagmap)" by simp
  have h5: "client_Point.Tags (Points batch_host_a ! 0) = None"
    by (simp add: batch_host_a_def cpu_point_def)
  from NormalizeBatchPoints_tags [OF h1 h2 h3 h4] h5
  have "\<exists>m. Point.Tags (?ps ! 0) = Some m \<and> map_of m = map_of [(''host'', ''a''), (''dc'', ''x'')]"
    by blast
  with h1 h2 h3 h4 h5 show ?thesis by simp
qed

text \<open>
  C3 as the spec states it fails: a point that has the key host, with the empty string
  as its value, does not keep its value; the batch's value a is written over it.
\<close>

theorem NormalizeBatchPoints_empty_tag_counterexample:
  "NormalizeBatchPoints SetPrecision_spec batch_empty_tag =
     Inr [\<lparr> Point.Name = ''cpu'', Tags = Some [(''host'', ''a'')],
            Timestamp = Unix 1700000000 0, Values = Some [(''v'', 1)] \<rparr>]"
  by (simp add: NormalizeBatchPoints_def batch_empty_tag_def cpu_point_def normalize_point_def
      IsZero_def SetPrecision_spec_def precision_unit_def merge_tags_def len_tags_def Unix_def
      index_map_def)

section \<open>Properties of BatchPoints.UnmarshalJSON\<close>

text \<open>
  C7. The decoder tries the epoch form first. When the body decodes into the struct with
  the integer timestamp and the integer (if there is one) converts at the struct's
  precision, the result is that struct with the converted time (the zero time when there
  is no timestamp), whatever the other decoding would give. Only when that decoding or
  that conversion fails is the body decoded into the struct with a time; then the result
  is that struct with \<open>SetPrecision\<close> of its time, or that decoding's error. On both
  paths the points, the database, the retention policy, the tags and the precision are
  those of the decoded struct.
\<close>

theorem UnmarshalJSON_epoch_first:
  "(\<forall>ep. ue b = Inr ep \<and> BatchPoints.Timestamp ep = None \<longrightarrow>
      (\<exists>bp. UnmarshalJSON ue un e2t sp b = Inr bp
           \<and> BatchPoints.Timestamp bp = 0 \<and> envelope bp = envelope ep))
   \<and> (\<forall>ep n ts. ue b = Inr ep \<and> BatchPoints.Timestamp ep = Some n
          \<and> e2t n (BatchPoints.Precision ep) = Inr ts \<longrightarrow>
      (\<exists>bp. UnmarshalJSON ue un e2t sp b = Inr bp
           \<and> BatchPoints.Timestamp bp = ts \<and> envelope bp = envelope ep))
   \<and> ((\<exists>e. ue b = Inl e)
        \<or> (\<exists>ep n e. ue b = Inr ep \<and> BatchPoints.Timestamp ep = Some n
              \<and> e2t n (BatchPoints.Precision ep) = Inl e) \<longrightarrow>
      (\<forall>nm. un b = Inr nm \<longrightarrow>
         (\<exists>bp. UnmarshalJSON ue un e2t sp b = Inr bp
              \<and> BatchPoints.Timestamp bp = sp (BatchPoints.Timestamp nm) (BatchPoints.Precision nm)
              \<and> envelope bp = envelope nm))
      \<and> (\<forall>err. un b = Inl err \<longrightarrow> UnmarshalJSON ue un e2t sp b = Inl err))"
  by (auto simp: UnmarshalJSON_def epoch_attempt_def from_epoch_def from_normal_def envelope_def
      split: sum.splits option.splits)

text \<open>
  The theorem on two bodies: one with the integer 1700000000 and precision s, decoded
  on the first path, and one with a time in ISO 8601, which the first decoding refuses
  and the second accepts.
\<close>

theorem UnmarshalJSON_epoch_first_witness:
  "(\<exists>bp. UnmarshalJSON toy_unm_epoch toy_unm_normal EpochToTime_spec SetPrecision_spec body_cpu = Inr bp
        \<and> BatchPoints.Timestamp bp = Unix 1700000000 0
        \<and> envelope bp = ([cpu_point], ''db'', [], None, ''s''))
   \<and> (\<exists>bp. UnmarshalJSON toy_unm_epoch toy_unm_normal EpochToTime_spec SetPrecision_spec body_cpu_iso = Inr bp
        \<and> BatchPoints.Timestamp bp = Unix 1577836800 0
        \<and> envelope bp = ([cpu_point], ''db'', [], None, []))"
proof -
  have ne: "body_cpu \<noteq> body_empty_object" "body_cpu \<noteq> body_database_nope"
    "body_cpu_iso \<noteq> body_empty_object" "body_cpu_iso \<noteq> body_database_nope"
    "body_cpu_iso \<noteq> body_cpu"
    by (simp_all add: body_cpu_def body_cpu_iso_def body_empty_object_def body_database_nope_def)
  have e1: "toy_unm_epoch body_cpu =
     Inr \<lparr> Points = [cpu_point], Database = ''db'', RetentionPolicy = [], Tags = None,
              Timestamp = Some 1700000000, Precision = ''s'' \<rparr>"
    by (simp add: toy_unm_epoch_def ne)
  have t1: "EpochToTime_spec 1700000000 ''s'' = Inr (Unix 1700000000 0)"
    by (simp add: EpochToTime_spec_def precision_unit_def Unix_def)
  have e2: "toy_unm_epoch body_cpu_iso =
     Inl (ErrorsNew ''json: cannot unmarshal string into Go value of type int64'')"
    by (simp add: toy_unm_epoch_def ne)
  have n2: "toy_unm_normal body_cpu_iso =
     Inr \<lparr> Points = [cpu_point], Database = ''db'', RetentionPolicy = [], Tags = None,
              Timestamp = Unix 1577836800 0, Precision = [] \<rparr>"
    by (simp add: toy_unm_normal_def ne)
  have s2: "SetPrecision_spec (Unix 1577836800 0) [] = Unix 1577836800 0"
    by (simp add: SetPrecision_spec_def precision_unit_def)
  show ?thesis
    using UnmarshalJSON_epoch_first
            [of toy_unm_epoch body_cpu toy_unm_normal EpochToTime_spec SetPrecision_spec]
      UnmarshalJSON_epoch_first
            [of toy_unm_epoch body_cpu_iso toy_unm_normal EpochToTime_spec SetPrecision_spec]
    by (simp add: e1 t1 e2 n2 s2 envelope_def)
qed

section \<open>Properties of the handler\<close>

subsection \<open>The response writer\<close>

lemma status_WriteHeader:
  "status (WriteHeader c rw) = Some (case status rw of None \<Rightarrow> c | Some c' \<Rightarrow> c')"
  by (simp add: WriteHeader_def split: option.splits)

lemma status_Header_Add [simp]: "status (Header_Add k v rw) = status rw"
  by (simp add: Header_Add_def)

lemma status_Header_Set [simp]: "status (Header_Set k v rw) = status rw"
  by (simp add: Header_Set_def)

lemma status_Write:
  "status (Write b rw) = Some (case status rw of None \<Rightarrow> 200 | Some c' \<Rightarrow> c')"
  by (simp add: Write_def Let_def WriteHeader_def split: option.splits)

lemma status_httpError:
  "status rw = None \<Longrightarrow> status (httpError msg pretty code rw) = Some code"
  by (simp add: httpError_def Let_def status_Write status_WriteHeader)



lemma body_httpError:
  "gzw rw = None \<Longrightarrow>
     body (httpError msg pretty code rw) = body rw @ [JSON_Results_Err (ErrorsNew msg) pretty]"
  by (simp add: httpError_def Write_def Header_Add_def WriteHeader_def Let_def)

lemma mm_Get_Set: "mm_Get (mm_Set k v m) k = v"
  by (simp add: mm_Get_def mm_Set_def update_conv')



lemma WriteHeader_keeps [simp]:
  "body (WriteHeader c rw) = body rw" "gzw (WriteHeader c rw) = gzw rw"
  "header (WriteHeader c rw) = header rw"
  by (simp_all add: WriteHeader_def)

lemma on_writer_simps [simp]:
  "server (on_writer f st) = server st"
  "writer (on_writer f st) = f (writer st)"
  "request (on_writer f st) = request st"
  "weblog (on_writer f st) = weblog st"
  "calls (on_writer f st) = calls st"
  by (simp_all add: on_writer_def)

subsection \<open>The instance\<close>

lemma toy_bodies_distinct:
  "body_cpu \<noteq> body_empty_object" "body_cpu \<noteq> body_database_nope" "body_cpu \<noteq> []"
  "body_cpu \<noteq> ''{''"
  "body_cpu_iso \<noteq> body_empty_object" "body_cpu_iso \<noteq> body_database_nope"
  "body_cpu_iso \<noteq> body_cpu"
  "body_database_nope \<noteq> body_empty_object" "body_database_nope \<noteq> []"
  "body_database_nope \<noteq> ''{''"
  "body_empty_object \<noteq> []" "body_empty_object \<noteq> ''{''"
  by (simp_all add: body_cpu_def body_cpu_iso_def body_empty_object_def body_database_nope_def)

lemma Decode_body_cpu:
  "Decode_BatchPoints toy_lib body_cpu =
     Inr \<lparr> Points = [cpu_point], Database = ''db'', RetentionPolicy = [], Tags = None,
           Timestamp = Unix 1700000000 0, Precision = ''s'' \<rparr>"
  by (simp add: Decode_BatchPoints_def toy_lib_def toy_bodies_distinct UnmarshalJSON_def
      epoch_attempt_def toy_unm_epoch_def from_epoch_def EpochToTime_spec_def precision_unit_def
      Unix_def)




lemma toy_state_simps [simp]:
  "server (toy_state s m b) = s"
  "Body (request (toy_state s m b)) = b"
  "Method (request (toy_state s m b)) = m"
  "URL_Query (request (toy_state s m b)) = []"
  "BasicAuth (request (toy_state s m b)) = None"
  "status (writer (toy_state s m b)) = None"
  "gzw (writer (toy_state s m b)) = None"
  "body (writer (toy_state s m b)) = []"
  "weblog (toy_state s m b) = []"
  "calls (toy_state s m b) = []"
  by (simp_all add: toy_state_def toy_request_def new_writer_def)

subsection \<open>recovery\<close>

text \<open>
  \<^verbatim>\<open>recovery\<close> reads the clock and adds nothing else to the handler it wraps: a
  panic of the inner handler passes through it, and after a return \<^verbatim>\<open>recover()\<close> is
  nil.
\<close>

lemma recovery_passes_through:
  "recovery env inner n st = inner (st\<lparr>calls := calls st @ [Call_Now]\<rparr>)"
  by (cases "inner (st\<lparr>calls := calls st @ [Call_Now]\<rparr>)")
     (simp_all add: recovery_def recover_in_body_def Let_def)

lemma serveWrite_nil_user:
  "serveWrite toy_lib toy_ops True None
     \<lparr> request = rq\<lparr> Body := body_cpu \<rparr>, writer = rw, server = toy_server0, weblog = lg,
       calls = cs \<rparr>
   = Panicked ''invalid memory address or nil pointer dereference''
       \<lparr> request = rq\<lparr> Body := body_cpu \<rparr>, writer = rw, server = toy_server0, weblog = lg,
         calls = cs \<rparr>"
  by (simp add: serveWrite_def Decode_body_cpu) (simp add: toy_ops_def toy_server0_def)

text \<open>
  C4 fails on the code. With authentication required and no user in the system,
  \<^verbatim>\<open>authenticate\<close> calls \<^verbatim>\<open>serveWrite\<close> with a nil user; for a batch on an existing
  database the write is not authorized and \<^verbatim>\<open>user.Name\<close> panics. The handler that
  \<^verbatim>\<open>NewHandler\<close> adds for the route write, \<^verbatim>\<open>recovery\<close> outermost, ends in that
  panic: no status has been written and nothing has been logged.
\<close>

theorem recovery_lets_panic_escape:
  "is_Panicked (wrap_route toy_lib toy_ops True ''0.9.0'' (routes_of toy_lib toy_ops True ! 1)
        (toy_state toy_server0 ''POST'' body_cpu))
   \<and> status (writer (state_of (wrap_route toy_lib toy_ops True ''0.9.0''
        (routes_of toy_lib toy_ops True ! 1) (toy_state toy_server0 ''POST'' body_cpu)))) = None
   \<and> weblog (state_of (wrap_route toy_lib toy_ops True ''0.9.0''
        (routes_of toy_lib toy_ops True ! 1) (toy_state toy_server0 ''POST'' body_cpu))) = []"
proof -
  have "wrap_route toy_lib toy_ops True ''0.9.0'' (routes_of toy_lib toy_ops True ! 1)
          (toy_state toy_server0 ''POST'' body_cpu)
        = Panicked ''invalid memory address or nil pointer dereference''
            \<lparr> request = \<lparr> Method = ''POST'', URL_Query = [],
                          Header = [(''Request-Id'', [''uuid-tt''])],
                          BasicAuth = None, Body = body_cpu \<rparr>,
              writer = \<lparr> status = None,
                         header = [(''Request-Id'', [''uuid-tt'']),
                                   (''X-Influxdb-Version'', [''0.9.0''])],
                         body = [], gzw = None \<rparr>,
              server = toy_server0, weblog = [],
              calls = [Call_Now, Call_Now, Call_NewUUID] \<rparr>"
    using serveWrite_nil_user [of "\<lparr> Method = ''POST'', URL_Query = [],
                          Header = [(''Request-Id'', [''uuid-tt''])],
                          BasicAuth = None, Body = body_cpu \<rparr>"
          "\<lparr> status = None,
                         header = [(''Request-Id'', [''uuid-tt'']),
                                   (''X-Influxdb-Version'', [''0.9.0''])],
                         body = [], gzw = None \<rparr>" "[]" "[Call_Now, Call_Now, Call_NewUUID]"]
    by (simp add: wrap_route_def routes_of_def recovery_def recover_in_body_def logging_def
        requestID_def cors_def versionHeader_def gzipFilter_def authenticate_def
        on_writer_def mm_Get_def mm_Set_def mm_Add_def Header_Add_def Header_Set_def Let_def
        toy_state_def toy_request_def new_writer_def)
       (simp add: toy_lib_def toy_ops_def toy_server0_def)
  then show ?thesis by simp
qed

subsection \<open>authenticate\<close>

lemma parseCredentials_missing:
  assumes "mm_Get (URL_Query rq) ''u'' = [] \<or> mm_Get (URL_Query rq) ''p'' = []"
    and "BasicAuth rq = None"
  shows "parseCredentials rq = Inl (ErrorsNew ''unable to parse Basic Auth credentials'')"
  using assms by (auto simp: parseCredentials_def Let_def)

text \<open>
  C5. With authentication required: when the server has no user, the inner handler is
  called with the nil user and the request's credentials are not looked at. When it has
  users, a request without usable credentials is answered with status 401 (the status of
  the response when none was written before), the same for every inner handler, which is
  not called, and the server is unchanged: that is so when the request has neither both
  of the parameters u and p nor Basic Auth credentials that parse, more generally
  whenever \<^verbatim>\<open>parseCredentials\<close> returns an error, and also when the credentials it
  returns have an empty user name, which is the case of Basic Auth credentials with an
  empty user name on a request without both parameters.
\<close>

theorem authenticate_bootstrap_and_missing_credentials:
  "(UserCount ops (server st) = 0 \<longrightarrow> authenticate ops inner True st = inner None st)
   \<and> (0 < UserCount ops (server st)
        \<and> (mm_Get (URL_Query (request st)) ''u'' = [] \<or> mm_Get (URL_Query (request st)) ''p'' = [])
        \<and> BasicAuth (request st) = None \<longrightarrow>
      (\<exists>st'. (\<forall>inner'. authenticate ops inner' True st = Returned st')
            \<and> st' = on_writer (httpError ''unable to parse Basic Auth credentials'' False
                                  StatusUnauthorized) st
            \<and> server st' = server st
            \<and> (status (writer st) = None \<longrightarrow> status (writer st') = Some StatusUnauthorized)))
   \<and> (0 < UserCount ops (server st) \<and> parseCredentials (request st) = Inl err \<longrightarrow>
      (\<exists>st'. (\<forall>inner'. authenticate ops inner' True st = Returned st')
            \<and> st' = on_writer (httpError (Error err) False StatusUnauthorized) st
            \<and> server st' = server st
            \<and> (status (writer st) = None \<longrightarrow> status (writer st') = Some StatusUnauthorized)))
   \<and> (0 < UserCount ops (server st) \<and> parseCredentials (request st) = Inr ([], p) \<longrightarrow>
      (\<exists>st'. (\<forall>inner'. authenticate ops inner' True st = Returned st')
            \<and> st' = on_writer (httpError ''username required'' False StatusUnauthorized) st
            \<and> server st' = server st
            \<and> (status (writer st) = None \<longrightarrow> status (writer st') = Some StatusUnauthorized)))
   \<and> ((mm_Get (URL_Query (request st)) ''u'' = [] \<or> mm_Get (URL_Query (request st)) ''p'' = [])
        \<and> BasicAuth (request st) = Some ([], p) \<longrightarrow>
      parseCredentials (request st) = Inr ([], p))"
  by (auto simp: authenticate_def parseCredentials_missing status_httpError)
     (auto simp: parseCredentials_def Let_def)

text \<open>
  The theorem on the route process_continuous_queries: on the server without users the
  handler runs with the nil user; on the server with the user admin a request without
  credentials gets 401, and so does a request whose Basic Auth credentials have an empty
  user name.
\<close>

theorem authenticate_bootstrap_and_missing_credentials_witness:
  "UserCount toy_ops (server (toy_state toy_server0 ''POST'' [])) = 0
   \<and> authenticate toy_ops (serveProcessContinuousQueries toy_lib toy_ops) True
        (toy_state toy_server0 ''POST'' [])
      = serveProcessContinuousQueries toy_lib toy_ops None (toy_state toy_server0 ''POST'' [])
   \<and> 0 < UserCount toy_ops (server (toy_state toy_server1 ''POST'' []))
   \<and> mm_Get (URL_Query (request (toy_state toy_server1 ''POST'' []))) ''u'' = []
   \<and> BasicAuth (request (toy_state toy_server1 ''POST'' [])) = None
   \<and> status (writer (toy_state toy_server1 ''POST'' [])) = None
   \<and> (\<exists>st'. authenticate toy_ops (serveProcessContinuousQueries toy_lib toy_ops) True
               (toy_state toy_server1 ''POST'' []) = Returned st'
            \<and> server st' = toy_server1
            \<and> status (writer st') = Some StatusUnauthorized)
   \<and> parseCredentials (request (with_BasicAuth [] ''secret'' (toy_state toy_server1 ''POST'' [])))
        = Inr ([], ''secret'')
   \<and> (\<exists>st'. authenticate toy_ops (serveProcessContinuousQueries toy_lib toy_ops) True
               (with_BasicAuth [] ''secret'' (toy_state toy_server1 ''POST'' [])) = Returned st'
            \<and> server st' = toy_server1
            \<and> body (writer st') = [JSON_Results_Err (ErrorsNew ''username required'') False]
            \<and> status (writer st') = Some StatusUnauthorized)"
proof -
  have pc: "parseCredentials (request (with_BasicAuth [] ''secret'' (toy_state toy_server1 ''POST'' [])))
        = Inr ([], ''secret'')"
    by (simp add: parseCredentials_def with_BasicAuth_def mm_Get_def Let_def)
  have uc: "UserCount toy_ops toy_server1 = 1" "UserCount toy_ops toy_server0 = 0"
    by (simp_all add: toy_ops_def toy_server0_def toy_server1_def)
  have wb: "server (with_BasicAuth u p st) = server st"
    "writer (with_BasicAuth u p st) = writer st" for u p and st :: "(toy_server, error option) state"
    by (simp_all add: with_BasicAuth_def)
  show ?thesis
    using authenticate_bootstrap_and_missing_credentials
            [of toy_ops "toy_state toy_server0 ''POST'' []"
                "serveProcessContinuousQueries toy_lib toy_ops"]
      authenticate_bootstrap_and_missing_credentials
            [of toy_ops "toy_state toy_server1 ''POST'' []"
                "serveProcessContinuousQueries toy_lib toy_ops"]
      authenticate_bootstrap_and_missing_credentials
            [where ops = toy_ops
               and st = "with_BasicAuth [] ''secret'' (toy_state toy_server1 ''POST'' [])"
               and inner = "serveProcessContinuousQueries toy_lib toy_ops" and p = "''secret''"]
    by (simp add: uc pc wb mm_Get_def body_httpError)
qed

subsection \<open>serveWrite\<close>





subsection \<open>serveCreateDataNode\<close>



subsection \<open>NewHandler and cors\<close>

text \<open>
  The three outer wrappers around any handler, on any state: the clock is read twice and
  then the UUID is drawn before the inner handler runs, and the start in the log line is
  the second reading of the clock. So the first reading is the one of \<^verbatim>\<open>recovery\<close>,
  outside \<^verbatim>\<open>logging\<close>, and \<^verbatim>\<open>requestID\<close> runs inside \<^verbatim>\<open>logging\<close>.
\<close>

lemma recovery_logging_requestID:
  "recovery env (logging env (requestID env inner) n1) n2 st =
     (case inner (st\<lparr> calls := calls st @ [Call_Now, Call_Now, Call_NewUUID],
                      request := (request st)\<lparr> Header :=
                        mm_Set ''Request-Id'' (uuid_NewUUID env (calls st @ [Call_Now, Call_Now]))
                          (Header (request st)) \<rparr>,
                      writer := Header_Set ''Request-Id''
                        (uuid_NewUUID env (calls st @ [Call_Now, Call_Now])) (writer st) \<rparr>) of
        Panicked p st1 \<Rightarrow> Panicked p st1
      | Returned st1 \<Rightarrow>
          Returned (st1\<lparr> weblog := weblog st1
            @ [buildLogLine env (writer st1) (request st1) (time_Now env (calls st @ [Call_Now]))] \<rparr>))"
  by (simp add: recovery_def recover_in_body_def logging_def requestID_def Let_def on_writer_def
      mm_Get_Set split: outcome.splits)

text \<open>
  The order of these three wrappers can be seen from outside: on a GET of /ping, the
  chain of the source differs from the chain without \<^verbatim>\<open>recovery\<close>, from the chains
  with \<^verbatim>\<open>recovery\<close> inside \<^verbatim>\<open>logging\<close> or innermost, and from the chains with
  \<^verbatim>\<open>requestID\<close> outside \<^verbatim>\<open>logging\<close>.
\<close>

lemma order_is_observable:
  "logging toy_lib (requestID toy_lib (servePing toy_lib toy_ops)) ''ping''
       (toy_state toy_server0 ''GET'' [])
     \<noteq> recovery toy_lib (logging toy_lib (requestID toy_lib (servePing toy_lib toy_ops)) ''ping'') ''ping''
       (toy_state toy_server0 ''GET'' [])"
  "logging toy_lib (recovery toy_lib (requestID toy_lib (servePing toy_lib toy_ops)) ''ping'') ''ping''
       (toy_state toy_server0 ''GET'' [])
     \<noteq> recovery toy_lib (logging toy_lib (requestID toy_lib (servePing toy_lib toy_ops)) ''ping'') ''ping''
       (toy_state toy_server0 ''GET'' [])"
  "logging toy_lib (requestID toy_lib (recovery toy_lib (servePing toy_lib toy_ops) ''ping'')) ''ping''
       (toy_state toy_server0 ''GET'' [])
     \<noteq> recovery toy_lib (logging toy_lib (requestID toy_lib (servePing toy_lib toy_ops)) ''ping'') ''ping''
       (toy_state toy_server0 ''GET'' [])"
  "recovery toy_lib (requestID toy_lib (logging toy_lib (servePing toy_lib toy_ops) ''ping'')) ''ping''
       (toy_state toy_server0 ''GET'' [])
     \<noteq> recovery toy_lib (logging toy_lib (requestID toy_lib (servePing toy_lib toy_ops)) ''ping'') ''ping''
       (toy_state toy_server0 ''GET'' [])"
  "requestID toy_lib (logging toy_lib (recovery toy_lib (servePing toy_lib toy_ops) ''ping'') ''ping'')
       (toy_state toy_server0 ''GET'' [])
     \<noteq> recovery toy_lib (logging toy_lib (requestID toy_lib (servePing toy_lib toy_ops)) ''ping'') ''ping''
       (toy_state toy_server0 ''GET'' [])"
  by (simp_all add: recovery_def recover_in_body_def logging_def requestID_def Let_def on_writer_def
      servePing_def toy_lib_def toy_state_def toy_request_def new_writer_def mm_Get_def mm_Set_def
      Header_Set_def WriteHeader_def Unix_def)

text \<open>
  C9, as the code has it. For every route the handler added to the mux is the route's
  handler wrapped, outermost first, in recovery, logging, request id, CORS, version
  header and gzip. Authentication is the innermost wrapper on the routes whose handler
  function takes a user (query, write and process_continuous_queries); the other six
  routes have no authentication wrapper. For a request with the method OPTIONS,
  \<^verbatim>\<open>cors\<close> returns the same state for every inner handler, which is not called: the
  server, the request, the log, the status and the body are untouched. The order of the
  three outer wrappers shows in what they do around any handler \<open>h\<close>: the clock is read
  by \<^verbatim>\<open>recovery\<close>, then by \<^verbatim>\<open>logging\<close>, whose log line starts at that second
  reading, then the UUID of \<^verbatim>\<open>requestID\<close> is drawn and written to the request and to
  the response, then \<open>h\<close> runs, and the log line is printed when \<open>h\<close> returns and not
  when it panics.
\<close>

theorem NewHandler_middleware_order:
  "mux (NewHandler env ops ra v) =
     map (\<lambda>r. (http_method r, pattern r,
                recovery env
                  (logging env
                     (requestID env
                        (cors
                           (versionHeader
                              (gzipFilter
                                 (case handlerFunc r of
                                    WithUser hf \<Rightarrow> authenticate ops hf ra
                                  | Plain hf \<Rightarrow> hf))
                              v)))
                     (name r))
                  (name r)))
         (routes (NewHandler env ops ra v))
   \<and> map (\<lambda>r. (name r, case handlerFunc r of WithUser hf \<Rightarrow> True | Plain hf \<Rightarrow> False))
         (routes (NewHandler env ops ra v)) =
       [(''query'', True), (''write'', True), (''data_nodes_index'', False),
        (''data_nodes_create'', False), (''data_nodes_delete'', False), (''metastore'', False),
        (''status'', False), (''ping'', False), (''process_continuous_queries'', True)]
   \<and> (Method (request st) = ''OPTIONS'' \<longrightarrow>
        (\<exists>st'. (\<forall>inner. cors inner st = Returned st')
              \<and> server st' = server st \<and> request st' = request st \<and> weblog st' = weblog st
              \<and> status (writer st') = status (writer st)
              \<and> body (writer st') = body (writer st)))
   \<and> recovery env (logging env (requestID env h) n1) n2 st =
       (case h (st\<lparr> calls := calls st @ [Call_Now, Call_Now, Call_NewUUID],
                     request := (request st)\<lparr> Header :=
                       mm_Set ''Request-Id'' (uuid_NewUUID env (calls st @ [Call_Now, Call_Now]))
                         (Header (request st)) \<rparr>,
                     writer := Header_Set ''Request-Id''
                       (uuid_NewUUID env (calls st @ [Call_Now, Call_Now])) (writer st) \<rparr>) of
          Panicked p st1 \<Rightarrow> Panicked p st1
        | Returned st1 \<Rightarrow>
            Returned (st1\<lparr> weblog := weblog st1
              @ [buildLogLine env (writer st1) (request st1)
                   (time_Now env (calls st @ [Call_Now]))] \<rparr>))"
proof -
  have "\<exists>st'. (\<forall>inner. cors inner st = Returned st')
              \<and> server st' = server st \<and> request st' = request st \<and> weblog st' = weblog st
              \<and> status (writer st') = status (writer st)
              \<and> body (writer st') = body (writer st)"
    if "Method (request st) = ''OPTIONS''"
    using that by (simp add: cors_def Let_def Header_Set_def)
  then show ?thesis
    by (simp add: NewHandler_def wrap_route_def routes_of_def Let_def recovery_logging_requestID)
qed

text \<open>
  The theorem on an OPTIONS request, and on a GET of /ping through the three outer
  wrappers: the log line starts one nanosecond after the first reading of the clock, and
  the request id is drawn after two readings.
\<close>

theorem NewHandler_middleware_order_witness:
  "Method (request (toy_state toy_server0 ''OPTIONS'' [])) = ''OPTIONS''
   \<and> (\<exists>st'. (\<forall>inner. cors inner (toy_state toy_server0 ''OPTIONS'' []) = Returned st')
          \<and> server st' = toy_server0 \<and> status (writer st') = None \<and> body (writer st') = [])
   \<and> weblog (state_of (recovery toy_lib (logging toy_lib (requestID toy_lib
        (servePing toy_lib toy_ops)) ''ping'') ''ping'' (toy_state toy_server0 ''GET'' [])))
      = [''GET +n'']
   \<and> mm_Get (header (writer (state_of (recovery toy_lib (logging toy_lib (requestID toy_lib
        (servePing toy_lib toy_ops)) ''ping'') ''ping'' (toy_state toy_server0 ''GET'' [])))))
        ''Request-Id'' = ''uuid-tt''"
proof -
  have "Method (request (toy_state toy_server0 ''OPTIONS'' [])) = ''OPTIONS'' \<longrightarrow>
        (\<exists>st'. (\<forall>inner. cors inner (toy_state toy_server0 ''OPTIONS'' []) = Returned st')
              \<and> server st' = server (toy_state toy_server0 ''OPTIONS'' [])
              \<and> request st' = request (toy_state toy_server0 ''OPTIONS'' [])
              \<and> weblog st' = weblog (toy_state toy_server0 ''OPTIONS'' [])
              \<and> status (writer st') = status (writer (toy_state toy_server0 ''OPTIONS'' []))
              \<and> body (writer st') = body (writer (toy_state toy_server0 ''OPTIONS'' [])))"
    using NewHandler_middleware_order
            [where env = toy_lib and ops = toy_ops and ra = True and v = "''0.9.0''"
               and st = "toy_state toy_server0 ''OPTIONS'' []",
             THEN conjunct2, THEN conjunct2, THEN conjunct1] .
  then have 1: "\<exists>st'. (\<forall>inner. cors inner (toy_state toy_server0 ''OPTIONS'' []) = Returned st')
          \<and> server st' = toy_server0 \<and> status (writer st') = None \<and> body (writer st') = []"
    by simp blast
  have 2: "weblog (state_of (recovery toy_lib (logging toy_lib (requestID toy_lib
        (servePing toy_lib toy_ops)) ''ping'') ''ping'' (toy_state toy_server0 ''GET'' [])))
      = [''GET +n'']
   \<and> mm_Get (header (writer (state_of (recovery toy_lib (logging toy_lib (requestID toy_lib
        (servePing toy_lib toy_ops)) ''ping'') ''ping'' (toy_state toy_server0 ''GET'' [])))))
        ''Request-Id'' = ''uuid-tt''"
    using NewHandler_middleware_order
            [where env = toy_lib and ops = toy_ops and ra = True and v = "''0.9.0''"
               and st = "toy_state toy_server0 ''GET'' []" and h = "servePing toy_lib toy_ops"
               and ?n1.0 = "''ping''" and ?n2.0 = "''ping''", THEN conjunct2, THEN conjunct2,
             THEN conjunct2]
    by (simp add: servePing_def toy_lib_def mm_Get_Set Header_Set_def Unix_def
        toy_state_def toy_request_def new_writer_def on_writer_def WriteHeader_def)
  from 1 2 show ?thesis by simp
qed

text \<open>
  C9 as the spec states it fails: the route ping has no authentication wrapper. With
  authentication required and a user in the system, a GET of /ping without credentials,
  which \<^verbatim>\<open>authenticate\<close> would answer with 401, goes through the whole chain to
  \<^verbatim>\<open>servePing\<close> and is answered with 204.
\<close>

theorem ping_route_not_authenticated_counterexample:
  "handlerFunc (routes_of toy_lib toy_ops True ! 7) = Plain (servePing toy_lib toy_ops)
   \<and> UserCount toy_ops (server (toy_state toy_server1 ''GET'' [])) = 1
   \<and> parseCredentials (request (toy_state toy_server1 ''GET'' []))
        = Inl (ErrorsNew ''unable to parse Basic Auth credentials'')
   \<and> is_Returned (wrap_route toy_lib toy_ops True ''0.9.0'' (routes_of toy_lib toy_ops True ! 7)
        (toy_state toy_server1 ''GET'' []))
   \<and> status (writer (state_of (wrap_route toy_lib toy_ops True ''0.9.0''
        (routes_of toy_lib toy_ops True ! 7) (toy_state toy_server1 ''GET'' []))))
      = Some StatusNoContent"
  by (simp add: toy_lib_def toy_ops_def toy_state_def toy_request_def new_writer_def
      toy_server0_def toy_server1_def wrap_route_def routes_of_def recovery_def
      recover_in_body_def logging_def requestID_def cors_def versionHeader_def gzipFilter_def
      parseCredentials_def on_writer_def mm_Get_def mm_Set_def mm_Add_def Header_Add_def
      Header_Set_def WriteHeader_def Let_def servePing_def)

end
